theory Spec2Isabelle
  imports Complex_Main "HOL-Library.List_Lexorder" "HOL-Library.Char_ord" "HOL-Library.Log_Nat"
begin

section \<open>Data model of the gym service\<close>

text \<open>
  Mongo ObjectIds are natural numbers. A JavaScript \<open>Date\<close> is its \<open>getTime()\<close> value,
  an integer number of milliseconds; the local zone is taken to be UTC without daylight
  saving, so that a local day is exactly 86400000 ms. An invalid Date (time value NaN)
  is \<open>None\<close> of \<open>Date option\<close>. Mongoose's createdAt/updatedAt stamps are left out.
\<close>

type_synonym ObjectId = nat
type_synonym Date = int

text \<open>Everything the services can throw: \<open>HttpError\<close> of utils/http-error.ts, and the
  errors of the runtime and the driver that the catch blocks tell apart by name or code.\<close>

datatype Thrown =
    HttpError nat string
  | ValidationError string
  | MongoServerError nat string
  | TypeError string

text \<open>What a \<open>save\<close> can fail with: a schema validation error of mongoose, or an error
  of the MongoDB server with its code (11000 is a duplicate key).\<close>

datatype DriverError = SchemaValidation string | ServerError nat string

fun thrown :: "DriverError \<Rightarrow> Thrown" where
  "thrown (SchemaValidation m) = ValidationError m"
| "thrown (ServerError c m) = MongoServerError c m"

datatype BookingStateEnum = SCHEDULED | CANCELLED | WAITING_FOR_FEEDBACK | COMPLETED

record TimeSlot =
  slot_id :: ObjectId
  startTime :: string
  endTime :: string

record FeedbackEntry =
  entry_message :: string
  rating :: "int option"
  timestamp :: Date

record Feedback =
  feedback_id :: ObjectId
  fb_from :: ObjectId
  fb_to :: ObjectId
  history :: "FeedbackEntry list"

record Booking =
  booking_id :: ObjectId
  timeSlotId :: ObjectId
  coachId :: ObjectId
  clientId :: ObjectId
  workoutId :: ObjectId
  date :: Date
  state :: BookingStateEnum
  clientFeedback :: "ObjectId option"
  coachFeedback :: "ObjectId option"

record Workout =
  workout_id :: ObjectId
  workoutType :: ObjectId
  workout_coachId :: ObjectId

text \<open>The collections, each in insertion order, and the generator of fresh ObjectIds.\<close>

record Store =
  timeSlots :: "TimeSlot list"
  workouts :: "Workout list"
  workoutOptions :: "ObjectId list"
  bookings :: "Booking list"
  feedbacks :: "Feedback list"
  nextId :: ObjectId

text \<open>
  What an operation reads from outside the store: the clock (one reading per call), the
  built-in Date parser and calendar of the JavaScript engine, the user directory of the
  auth service (\<open>getCoachData\<close>/\<open>getUserData\<close> answer null or a profile), and which
  of the call's \<open>save\<close>s, counted from 0, is made to throw by the driver.
\<close>

record Env =
  now :: Date
  parseDate :: "string \<Rightarrow> Date option"
  monthStart :: "Date \<Rightarrow> Date"
  civilDate :: "int \<Rightarrow> int \<Rightarrow> int \<Rightarrow> Date option"
  coachData :: "ObjectId \<Rightarrow> bool"
  userData :: "ObjectId \<Rightarrow> bool"
  saveFault :: "nat \<Rightarrow> DriverError option"

section \<open>Dates and wall-clock strings\<close>

definition startOfDay :: "Date \<Rightarrow> Date" where
  "startOfDay d = d - d mod 86400000"

text \<open>\<open>d.setHours(h, m, s, ms)\<close>: the local day of \<open>d\<close> with the time of day replaced.\<close>

definition setHours :: "Date \<Rightarrow> int \<Rightarrow> int \<Rightarrow> int \<Rightarrow> int \<Rightarrow> Date" where
  "setHours d h m s ms = startOfDay d + h * 3600000 + m * 60000 + s * 1000 + ms"

text \<open>The value of a decimal digit, \<open>None\<close> for any other character.\<close>

definition digitValue :: "char \<Rightarrow> int option" where
  "digitValue c = map_of (zip ''0123456789'' [0, 1, 2, 3, 4, 5, 6, 7, 8, 9]) c"

definition isDigits :: "string \<Rightarrow> bool" where
  "isDigits s = (s \<noteq> [] \<and> list_all (\<lambda>c. digitValue c \<noteq> None) s)"

fun decimalValue :: "int \<Rightarrow> string \<Rightarrow> int" where
  "decimalValue acc [] = acc"
| "decimalValue acc (c # cs) =
     decimalValue (10 * acc + (case digitValue c of Some v \<Rightarrow> v | None \<Rightarrow> 0)) cs"

text \<open>
  \<open>Number(s)\<close> on the strings a time slot holds: a run of decimal digits is its value,
  the empty string is 0, and anything else is NaN (\<open>None\<close>). The other literals that
  JavaScript converts (signs, fractions, exponents, radix prefixes, blanks around the
  digits) do not occur in an \<open>HH:MM\<close> string and are NaN here.
\<close>

definition Number :: "string \<Rightarrow> int option" where
  "Number s = (if s = [] then Some 0 else if isDigits s then Some (decimalValue 0 s) else None)"

text \<open>\<open>s.split(":")\<close>.\<close>

fun splitColon :: "string \<Rightarrow> string list" where
  "splitColon [] = [[]]"
| "splitColon (c # cs) =
     (if c = CHR '':'' then [] # splitColon cs
      else (case splitColon cs of [] \<Rightarrow> [[c]] | p # ps \<Rightarrow> (c # p) # ps))"

text \<open>\<open>const [hours, minutes] = t.split(":").map(Number)\<close>; \<open>None\<close> when either of the
  two is NaN or undefined, which is when a Date built from them is invalid.\<close>

definition hoursMinutes :: "string \<Rightarrow> (int \<times> int) option" where
  "hoursMinutes t =
     (case map Number (splitColon t) of
        Some h # Some m # _ \<Rightarrow> Some (h, m)
      | _ \<Rightarrow> None)"

section \<open>Store access\<close>

definition findBooking :: "ObjectId \<Rightarrow> Store \<Rightarrow> Booking option" where
  "findBooking i s = find (\<lambda>b. booking_id b = i) (bookings s)"

definition findFeedback :: "ObjectId \<Rightarrow> Store \<Rightarrow> Feedback option" where
  "findFeedback i s = find (\<lambda>f. feedback_id f = i) (feedbacks s)"

definition findTimeSlot :: "ObjectId \<Rightarrow> Store \<Rightarrow> TimeSlot option" where
  "findTimeSlot i s = find (\<lambda>t. slot_id t = i) (timeSlots s)"

text \<open>\<open>doc.save()\<close> of a document that was loaded from the store: the stored document
  with that id is replaced.\<close>

definition updateBooking :: "Booking \<Rightarrow> Store \<Rightarrow> Store" where
  "updateBooking b s =
     s\<lparr>bookings := map (\<lambda>x. if booking_id x = booking_id b then b else x) (bookings s)\<rparr>"

definition updateFeedback :: "Feedback \<Rightarrow> Store \<Rightarrow> Store" where
  "updateFeedback f s =
     s\<lparr>feedbacks := map (\<lambda>x. if feedback_id x = feedback_id f then f else x) (feedbacks s)\<rparr>"

section \<open>Cancellation (WorkoutService.cancelBooking)\<close>

text \<open>The catch block of cancelBooking: an HttpError is rethrown, anything else is a 500.\<close>

fun cancelCatch :: "Thrown \<Rightarrow> Thrown" where
  "cancelCatch (HttpError c m) = HttpError c m"
| "cancelCatch _ = HttpError 500 ''Failed to cancel booking''"

definition cancelBooking :: "Env \<Rightarrow> ObjectId \<Rightarrow> ObjectId \<Rightarrow> Store \<Rightarrow> (Thrown + Booking) \<times> Store" where
  "cancelBooking env bookingId userId s =
     (case findBooking bookingId s of
        None \<Rightarrow> (Inl (HttpError 404 ''Booking not found''), s)
      | Some booking \<Rightarrow>
          if \<not> userData env userId then (Inl (HttpError 404 ''User not found''), s)
          else if \<not> (clientId booking = userId \<or> coachId booking = userId)
            then (Inl (HttpError 403 ''Not authorized to cancel this booking''), s)
          else if state booking = CANCELLED
            then (Inl (HttpError 400 ''Booking is already cancelled''), s)
          else if state booking = COMPLETED
            then (Inl (HttpError 400 ''Cannot cancel a completed booking''), s)
          else if state booking = WAITING_FOR_FEEDBACK
            then (Inl (HttpError 400 ''Cannot cancel a booking that is waiting for feedback''), s)
          else
            let timeDiff = date booking - now env;
                hoursDiff = timeDiff div (1000 * 60 * 60)
            in if hoursDiff < 12
               then (Inl (HttpError 400 ''Cannot cancel a booking less than 12 hours before the date''), s)
               else (case saveFault env 0 of
                       Some e \<Rightarrow> (Inl (cancelCatch (thrown e)), s)
                     | None \<Rightarrow>
                         let updatedBooking = booking\<lparr>state := CANCELLED\<rparr>
                         in (Inr updatedBooking, updateBooking updatedBooking s)))"

section \<open>Date validation (WorkoutService.parseAndValidateDate)\<close>

text \<open>A date argument as the services receive it (\<open>Date | string\<close>).\<close>

datatype DateArg = DateObject "Date option" | DateString string

text \<open>The time value of a Date is only defined within 8.64e15 ms of the epoch.\<close>

definition timeClip :: "int \<Rightarrow> Date option" where
  "timeClip t = (if \<bar>t\<bar> \<le> 8640000000000000 then Some t else None)"

text \<open>\<open>new Date(today.getFullYear(), today.getMonth(), parseInt(str))\<close> for a string of
  digits: day \<open>n\<close> of the current month, where \<open>monthStart env t\<close> is local midnight of
  the first day of the month of \<open>t\<close>; days outside the month roll over.\<close>

definition dayOfCurrentMonth :: "Env \<Rightarrow> string \<Rightarrow> Date option" where
  "dayOfCurrentMonth env str =
     timeClip (monthStart env (now env) + (decimalValue 0 str - 1) * 86400000)"

text \<open>The first half of parseAndValidateDate: the Date that the argument is read as.\<close>

definition bookingDateOf :: "Env \<Rightarrow> DateArg \<Rightarrow> Date option" where
  "bookingDateOf env d =
     (case d of
        DateString str \<Rightarrow>
          if isDigits str then dayOfCurrentMonth env str else parseDate env str
      | DateObject v \<Rightarrow> v)"

definition parseAndValidateDate :: "Env \<Rightarrow> DateArg \<Rightarrow> Thrown + Date" where
  "parseAndValidateDate env d =
     (case bookingDateOf env d of
        None \<Rightarrow> Inl (HttpError 400 ''Invalid date format'')
      | Some bookingDate \<Rightarrow>
          (let normalizedDate = setHours bookingDate 0 0 0 0;
               today = setHours (now env) 0 0 0 0
           in if normalizedDate < today
              then Inl (HttpError 400 ''Cannot book a workout for a past date'')
              else Inr bookingDate))"

definition isTimeSlotPassed :: "Env \<Rightarrow> Date \<Rightarrow> string \<Rightarrow> bool" where
  "isTimeSlotPassed env d startT =
     (let today = setHours (now env) 0 0 0 0;
          bookingDate = setHours d 0 0 0 0
      in if bookingDate = today
         then (case hoursMinutes startT of
                 None \<Rightarrow> False
               | Some (hours, minutes) \<Rightarrow> now env > setHours (now env) hours minutes 0 0)
         else False)"

section \<open>Transactions\<close>

text \<open>
  \<open>session.withTransaction(callback)\<close>, and the startTransaction / commitTransaction /
  abortTransaction sequence of addFeedback: the writes made with the session become
  visible together when the callback returns, and none of them does when it throws.
  The driver's retry of transient errors is not modelled.
\<close>

definition withTransaction ::
  "(Store \<Rightarrow> (Thrown + 'a) \<times> Store) \<Rightarrow> Store \<Rightarrow> (Thrown + 'a) \<times> Store" where
  "withTransaction callback s =
     (let r = callback s
      in case fst r of
           Inl e \<Rightarrow> (Inl e, s)
         | Inr v \<Rightarrow> (Inr v, snd r))"

section \<open>Booking (WorkoutService.bookWorkout)\<close>

text \<open>The callback handed to withTransaction: three saves, each of which may throw.\<close>

definition bookTransaction ::
  "Env \<Rightarrow> ObjectId \<Rightarrow> ObjectId \<Rightarrow> ObjectId \<Rightarrow> ObjectId \<Rightarrow> Date \<Rightarrow> Store
     \<Rightarrow> (Thrown + Booking) \<times> Store" where
  "bookTransaction env clientId' workoutId' coachId' timeSlotId' bookingDate s =
     (let clientFb = \<lparr>feedback_id = nextId s, fb_from = clientId', fb_to = coachId', history = []\<rparr>;
          coachFb = \<lparr>feedback_id = nextId s + 1, fb_from = coachId', fb_to = clientId', history = []\<rparr>;
          s1 = s\<lparr>feedbacks := feedbacks s @ [clientFb]\<rparr>;
          s2 = s1\<lparr>feedbacks := feedbacks s1 @ [coachFb]\<rparr>;
          booking = \<lparr>booking_id = nextId s + 2, timeSlotId = timeSlotId',
                     coachId = coachId', clientId = clientId',
                     workoutId = workoutId', date = bookingDate,
                     state = SCHEDULED,
                     clientFeedback = Some (feedback_id clientFb),
                     coachFeedback = Some (feedback_id coachFb)\<rparr>;
          s3 = s2\<lparr>bookings := bookings s2 @ [booking], nextId := nextId s + 3\<rparr>
      in (case saveFault env 0 of
            Some e \<Rightarrow> (Inl (thrown e), s)
          | None \<Rightarrow>
              (case saveFault env 1 of
                 Some e \<Rightarrow> (Inl (thrown e), s1)
               | None \<Rightarrow>
                   (case saveFault env 2 of
                      Some e \<Rightarrow> (Inl (thrown e), s2)
                    | None \<Rightarrow> (Inr booking, s3)))))"

text \<open>The catch block of bookWorkout, in its order: a ValidationError by name, the
  duplicate-key code 11000, an HttpError rethrown, anything else a 500.\<close>

fun bookCatch :: "Thrown \<Rightarrow> Thrown" where
  "bookCatch (ValidationError m) = HttpError 400 ''Invalid booking data''"
| "bookCatch (MongoServerError c m) =
     (if c = 11000 then HttpError 409 ''This booking already exists''
      else HttpError 500 ''Failed to book workout'')"
| "bookCatch (HttpError c m) = HttpError c m"
| "bookCatch (TypeError m) = HttpError 500 ''Failed to book workout''"

definition bookWorkout ::
  "Env \<Rightarrow> ObjectId \<Rightarrow> ObjectId \<Rightarrow> ObjectId \<Rightarrow> ObjectId \<Rightarrow> DateArg \<Rightarrow> Store
     \<Rightarrow> (Thrown + Booking) \<times> Store" where
  "bookWorkout env clientId' workoutId' coachId' timeSlotId' date' s =
     (case parseAndValidateDate env date' of
        Inl e \<Rightarrow> (Inl (bookCatch e), s)
      | Inr bookingDate \<Rightarrow>
          (if \<not> coachData env coachId' then (Inl (HttpError 404 ''Coach not found''), s)
           else
            (case find (\<lambda>w. workout_id w = workoutId' \<and> workout_coachId w = coachId') (workouts s) of
               None \<Rightarrow>
                 (Inl (HttpError 404 ''Workout not found or does not belong to the specified coach''), s)
             | Some workout \<Rightarrow>
                 (case findTimeSlot timeSlotId' s of
                    None \<Rightarrow> (Inl (HttpError 404 ''Time slot not found''), s)
                  | Some timeSlot \<Rightarrow>
                      (if isTimeSlotPassed env bookingDate (startTime timeSlot)
                       then (Inl (HttpError 400 ''Cannot book a time slot that has already passed''), s)
                       else
                        (let startOfDay' = setHours bookingDate 0 0 0 0;
                             endOfDay = setHours bookingDate 23 59 59 999;
                             existingBooking =
                               filter (\<lambda>b. coachId b = coachId' \<and> timeSlotId b = timeSlotId'
                                            \<and> startOfDay' \<le> date b \<and> date b < endOfDay
                                            \<and> state b \<noteq> CANCELLED) (bookings s);
                             existingClientBooking =
                               filter (\<lambda>b. clientId b = clientId' \<and> timeSlotId b = timeSlotId'
                                            \<and> startOfDay' \<le> date b \<and> date b < endOfDay
                                            \<and> state b \<noteq> CANCELLED) (bookings s)
                         in (if length existingBooking > 0
                             then (Inl (HttpError 409 ''Coach already has a booking at this time slot''), s)
                             else if length existingClientBooking > 0
                             then (Inl (HttpError 409 ''You already have a booking at this time slot''), s)
                             else
                              (let r = withTransaction
                                         (bookTransaction env clientId' workoutId' coachId'
                                            timeSlotId' bookingDate) s
                               in (case fst r of
                                     Inl e \<Rightarrow> (Inl (bookCatch e), snd r)
                                   | Inr savedBooking \<Rightarrow> (Inr savedBooking, snd r))))))))))"

section \<open>Feedback (FeedbackService.addFeedback)\<close>

text \<open>The FeedbackEntry schema: a message is required, a rating lies between 1 and 5.\<close>

definition validEntry :: "FeedbackEntry \<Rightarrow> bool" where
  "validEntry e =
     (entry_message e \<noteq> [] \<and> (case rating e of None \<Rightarrow> True | Some r \<Rightarrow> 1 \<le> r \<and> r \<le> 5))"

text \<open>\<open>feedbackDoc.save({ session })\<close>, the first save of the call: schema validation of
  the new entry, then the write.\<close>

definition saveFeedbackDoc ::
  "Env \<Rightarrow> FeedbackEntry \<Rightarrow> (Store \<Rightarrow> Store) \<Rightarrow> Store \<Rightarrow> (Thrown + unit) \<times> Store" where
  "saveFeedbackDoc env entry write s =
     (if \<not> validEntry entry then (Inl (ValidationError ''Feedback validation failed''), s)
      else (case saveFault env 0 of
              Some e \<Rightarrow> (Inl (thrown e), s)
            | None \<Rightarrow> (Inr (), write s)))"

text \<open>
  The two branches of the inner try block are the same code up to the direction: the
  ledger reference read from the booking (\<open>ref\<close>), the sender and the recipient of a
  newly created ledger, and the name in the not-found message. The result is the ledger
  reference the booking holds afterwards.
\<close>

definition writeLedger ::
  "Env \<Rightarrow> ObjectId option \<Rightarrow> ObjectId \<Rightarrow> ObjectId \<Rightarrow> string \<Rightarrow> FeedbackEntry \<Rightarrow> Store
     \<Rightarrow> (Thrown + ObjectId option) \<times> Store" where
  "writeLedger env ref sender recipient missing entry s =
     (case ref of
        None \<Rightarrow>
          (let feedbackDoc = \<lparr>feedback_id = nextId s, fb_from = sender, fb_to = recipient,
                               history = [entry]\<rparr>;
               r = saveFeedbackDoc env entry
                     (\<lambda>t. t\<lparr>feedbacks := feedbacks t @ [feedbackDoc], nextId := nextId t + 1\<rparr>) s
           in (case fst r of
                 Inl e \<Rightarrow> (Inl e, snd r)
               | Inr _ \<Rightarrow> (Inr (Some (feedback_id feedbackDoc)), snd r)))
      | Some i \<Rightarrow>
          (case findFeedback i s of
             None \<Rightarrow> (Inl (HttpError 404 missing), s)
           | Some feedbackDoc \<Rightarrow>
               (let pushed = feedbackDoc\<lparr>history := history feedbackDoc @ [entry]\<rparr>;
                    r = saveFeedbackDoc env entry (updateFeedback pushed) s
                in (case fst r of
                      Inl e \<Rightarrow> (Inl e, snd r)
                    | Inr _ \<Rightarrow> (Inr (Some i), snd r)))))"

definition feedbackTransaction ::
  "Env \<Rightarrow> Booking \<Rightarrow> bool \<Rightarrow> FeedbackEntry \<Rightarrow> Store \<Rightarrow> (Thrown + FeedbackEntry) \<times> Store" where
  "feedbackTransaction env bookingDetails isClient feedbackEntry s =
     (let r = (if isClient
               then writeLedger env (clientFeedback bookingDetails) (clientId bookingDetails)
                      (coachId bookingDetails) ''Client feedback document not found'' feedbackEntry s
               else writeLedger env (coachFeedback bookingDetails) (coachId bookingDetails)
                      (clientId bookingDetails) ''Coach feedback document not found'' feedbackEntry s)
      in (case fst r of
            Inl e \<Rightarrow> (Inl e, snd r)
          | Inr ref \<Rightarrow>
              (let withRef = (if isClient then bookingDetails\<lparr>clientFeedback := ref\<rparr>
                              else bookingDetails\<lparr>coachFeedback := ref\<rparr>);
                   completed = withRef\<lparr>state := COMPLETED\<rparr>
               in (case saveFault env 1 of
                     Some e \<Rightarrow> (Inl (thrown e), snd r)
                   | None \<Rightarrow> (Inr feedbackEntry, updateBooking completed (snd r))))))"

text \<open>\<open>error.message\<close> of what was thrown.\<close>

fun thrownMessage :: "Thrown \<Rightarrow> string" where
  "thrownMessage (HttpError c m) = m"
| "thrownMessage (ValidationError m) = m"
| "thrownMessage (MongoServerError c m) = m"
| "thrownMessage (TypeError m) = m"

text \<open>The outer catch block of addFeedback: an HttpError is rethrown, anything else
  becomes a 400 with the message of the error, or with the stock text when it has none.\<close>

fun feedbackCatch :: "Thrown \<Rightarrow> Thrown" where
  "feedbackCatch (HttpError c m) = HttpError c m"
| "feedbackCatch e =
     HttpError 400 (if thrownMessage e = [] then ''Failed to add feedback. Please try again later.''
                    else thrownMessage e)"

definition addFeedback ::
  "Env \<Rightarrow> ObjectId \<Rightarrow> ObjectId \<Rightarrow> string \<Rightarrow> int \<Rightarrow> Store \<Rightarrow> (Thrown + FeedbackEntry) \<times> Store" where
  "addFeedback env userId bookingId message' rating' s =
     (case findBooking bookingId s of
        None \<Rightarrow> (Inl (HttpError 404 ''Booking not found''), s)
      | Some bookingDetails \<Rightarrow>
          (if userId \<noteq> clientId bookingDetails \<and> userId \<noteq> coachId bookingDetails
           then (Inl (HttpError 403 ''User is not allowed to give feedback for this booking''), s)
           else if state bookingDetails = COMPLETED
           then (Inl (HttpError 400 ''Feedback can only be given for completed bookings''), s)
           else
            (case findTimeSlot (timeSlotId bookingDetails) s of
               None \<Rightarrow> (Inl (feedbackCatch (TypeError ''Cannot read properties of null'')), s)
             | Some slot \<Rightarrow>
                 (if (case hoursMinutes (endTime slot) of
                        None \<Rightarrow> False
                      | Some (hours, minutes) \<Rightarrow>
                          setHours (date bookingDetails) hours minutes 0 0 > now env)
                  then (Inl (HttpError 400 ''Feedback can only be given after the booking has ended''), s)
                  else
                   (let feedbackEntry = \<lparr>entry_message = message', rating = Some rating',
                                          timestamp = now env\<rparr>;
                        isClient = (userId = clientId bookingDetails);
                        r = withTransaction
                              (feedbackTransaction env bookingDetails isClient feedbackEntry) s
                    in (case fst r of
                          Inl e \<Rightarrow> (Inl (feedbackCatch e), snd r)
                        | Inr entry \<Rightarrow> (Inr entry, snd r)))))))"

section \<open>Coach availability (CoachService.getCoachAvailableTimeSlots)\<close>

record SlotStatus = TimeSlot +
  isBooked :: bool

definition activeStates :: "BookingStateEnum list" where
  "activeStates = [SCHEDULED, COMPLETED, WAITING_FOR_FEEDBACK]"

definition getCoachAvailableTimeSlots ::
  "Env \<Rightarrow> ObjectId \<Rightarrow> Date option \<Rightarrow> Store \<Rightarrow> Thrown + SlotStatus list" where
  "getCoachAvailableTimeSlots env coachId' date' s =
     (case date' of
        None \<Rightarrow> Inl (HttpError 400 ''Invalid date format'')
      | Some parsedDate \<Rightarrow>
          (if \<not> coachData env coachId' then Inl (HttpError 404 ''Coach not found'')
           else if length (timeSlots s) = 0 then Inl (HttpError 404 ''No time slots available'')
           else
            (let found = filter (\<lambda>b. coachId b = coachId' \<and> date b = parsedDate
                                      \<and> state b \<in> set activeStates) (bookings s);
                 slotsWithBookingStatus =
                   map (\<lambda>slot.
                          \<lparr>slot_id = slot_id slot, startTime = startTime slot, endTime = endTime slot,
                           isBooked = list_ex (\<lambda>booking. timeSlotId booking = slot_id slot
                                                 \<and> state booking \<in> set activeStates) found\<rparr>)
                       (timeSlots s)
             in Inr slotsWithBookingStatus)))"

section \<open>Date parsing of the coach service (CoachService.parseAndValidateDate)\<close>



section \<open>Availability search (WorkoutService.searchWorkoutUsingFilters)\<close>

text \<open>One entry of the result. The profile fields copied from the user directory
  (names, title, image) are left out.\<close>

record CoachWorkoutAvailability =
  av_coachId :: ObjectId
  av_workoutId :: ObjectId
  activityId :: ObjectId
  av_timeSlotId :: "ObjectId option"
  timeSlot :: "string option"
  av_date :: Date
  alternativeTimeSlots :: "TimeSlot list"

text \<open>The slots that pass the cutoff of today: the start time, put on today's date, is
  strictly later than now.\<close>

definition validTimeSlots :: "Env \<Rightarrow> bool \<Rightarrow> TimeSlot list \<Rightarrow> TimeSlot list" where
  "validTimeSlots env isToday availableTimeSlots =
     (if isToday
      then filter (\<lambda>slot. case hoursMinutes (startTime slot) of
                             None \<Rightarrow> False
                           | Some (hours, minutes) \<Rightarrow> setHours (now env) hours minutes 0 0 > now env)
             availableTimeSlots
      else availableTimeSlots)"

text \<open>The bookings of the day that are not cancelled, of any coach, and the slots that
  none of them occupies.\<close>

definition bookingsOfDay :: "Date \<Rightarrow> Store \<Rightarrow> Booking list" where
  "bookingsOfDay formattedDate s =
     filter (\<lambda>b. formattedDate \<le> date b \<and> date b < formattedDate + 24 * 60 * 60 * 1000
                  \<and> state b \<noteq> CANCELLED) (bookings s)"

definition availableAlternativeTimeSlots :: "TimeSlot list \<Rightarrow> Booking list \<Rightarrow> TimeSlot list" where
  "availableAlternativeTimeSlots valid found =
     filter (\<lambda>slot. \<not> list_ex (\<lambda>booking. timeSlotId booking = slot_id slot) found) valid"

text \<open>The body of the loop over the workouts; reading a field of a coach or of a workout
  type that the lookup answered with null throws a TypeError.\<close>

definition availabilityInfo ::
  "Env \<Rightarrow> Store \<Rightarrow> ObjectId option \<Rightarrow> ObjectId option \<Rightarrow> Date \<Rightarrow> TimeSlot list \<Rightarrow> Workout
     \<Rightarrow> Thrown + CoachWorkoutAvailability" where
  "availabilityInfo env s workoutId' timeSlotId' formattedDate available workout =
     (if \<not> coachData env (workout_coachId workout)
      then Inl (TypeError ''Cannot read properties of null'')
      else
       (let requested = (case timeSlotId' of
                           None \<Rightarrow> None
                         | Some i \<Rightarrow> find (\<lambda>slot. slot_id slot = i) available);
            selectedTimeSlot = (case requested of
                                  Some slot \<Rightarrow> Some slot
                                | None \<Rightarrow> (case available of [] \<Rightarrow> None | slot # _ \<Rightarrow> Some slot));
            currentTimeSlotId = map_option slot_id selectedTimeSlot;
            currentTimeSlot = map_option (\<lambda>slot. startTime slot @ ''-'' @ endTime slot) selectedTimeSlot;
            alternatives = filter (\<lambda>slot. case currentTimeSlotId of
                                              Some i \<Rightarrow> slot_id slot \<noteq> i
                                            | None \<Rightarrow> True) available
        in (if workoutType workout \<notin> set (workoutOptions s)
            then Inl (TypeError ''Cannot read properties of null'')
            else Inr \<lparr>av_coachId = workout_coachId workout,
                      av_workoutId = workout_id workout,
                      activityId = (case workoutId' of Some w \<Rightarrow> w | None \<Rightarrow> workoutType workout),
                      av_timeSlotId = currentTimeSlotId,
                      timeSlot = currentTimeSlot,
                      av_date = formattedDate,
                      alternativeTimeSlots = alternatives\<rparr>)))"

text \<open>The loop: the first throw ends it.\<close>

fun forEachWorkout :: "(Workout \<Rightarrow> Thrown + CoachWorkoutAvailability) \<Rightarrow> Workout list
     \<Rightarrow> Thrown + CoachWorkoutAvailability list" where
  "forEachWorkout f [] = Inr []"
| "forEachWorkout f (w # ws) =
     (case f w of
        Inl e \<Rightarrow> Inl e
      | Inr a \<Rightarrow> (case forEachWorkout f ws of Inl e \<Rightarrow> Inl e | Inr rest \<Rightarrow> Inr (a # rest)))"

text \<open>The filter options are optional; an absent date, and the empty string, which is
  falsy, stand for now.\<close>

definition dateGiven :: "DateArg option \<Rightarrow> bool" where
  "dateGiven date' =
     (case date' of
        None \<Rightarrow> False
      | Some (DateString str) \<Rightarrow> str \<noteq> []
      | Some (DateObject v) \<Rightarrow> True)"

definition searchDateOf :: "Env \<Rightarrow> DateArg option \<Rightarrow> Date option" where
  "searchDateOf env date' =
     (if dateGiven date'
      then (case date' of
              Some (DateObject v) \<Rightarrow> v
            | Some (DateString str) \<Rightarrow>
                if isDigits str then dayOfCurrentMonth env str else parseDate env str
            | None \<Rightarrow> Some (now env))
      else Some (now env))"

definition searchWorkoutUsingFilters ::
  "Env \<Rightarrow> ObjectId option \<Rightarrow> ObjectId option \<Rightarrow> ObjectId option \<Rightarrow> DateArg option \<Rightarrow> Store
     \<Rightarrow> Thrown + CoachWorkoutAvailability list" where
  "searchWorkoutUsingFilters env workoutId' coachId' timeSlotId' date' s =
     (let given = dateGiven date';
          searchDate = searchDateOf env date'
      in (case searchDate of
            None \<Rightarrow> Inl (HttpError 400 ''Invalid date format'')
          | Some sd \<Rightarrow>
              (if given \<and> setHours sd 0 0 0 0 < setHours (now env) 0 0 0 0
               then Inl (HttpError 400 ''Date cannot be in the past'')
               else
                (let formattedDate = setHours sd 0 0 0 0;
                     isToday = (formattedDate = startOfDay (now env));
                     availableTimeSlots = sort_key startTime (timeSlots s);
                     valid = validTimeSlots env isToday availableTimeSlots;
                     found = filter (\<lambda>w. (case workoutId' of None \<Rightarrow> True | Some i \<Rightarrow> workoutType w = i)
                                         \<and> (case coachId' of None \<Rightarrow> True | Some i \<Rightarrow> workout_coachId w = i))
                               (workouts s);
                     available = availableAlternativeTimeSlots valid (bookingsOfDay formattedDate s)
                 in (if length availableTimeSlots = 0
                     then Inl (HttpError 404 ''No time slots available'')
                     else if length valid = 0
                     then Inl (HttpError 404 ''No available time slots for today'')
                     else if (case timeSlotId' of
                                None \<Rightarrow> False
                              | Some i \<Rightarrow> find (\<lambda>slot. slot_id slot = i) valid = None)
                     then Inl (HttpError 404 ''Selected time slot is not available'')
                     else if length found = 0
                     then Inl (HttpError 404 ''No workouts found for the given filter'')
                     else if length available = 0
                     then Inl (HttpError 404 ''No available time slots for the selected date'')
                     else forEachWorkout
                            (availabilityInfo env s workoutId' timeSlotId' formattedDate available)
                            found)))))"

section \<open>JavaScript numbers\<close>

text \<open>
  A finite JavaScript number is the rational value of the binary64 that holds it, and NaN
  is \<open>None\<close> where it can arise. Each arithmetic operation gives the exact result
  rounded to the nearest binary64, a tie going to the even significand; \<open>toDouble\<close> is
  that rounding, subnormal numbers included. Infinity is left out: the numbers below are
  sums and quotients of stored ratings, which stay far from \<open>2 ^ 1024\<close>.
\<close>

text \<open>\<open>floorLog2 q\<close> is the exponent \<open>k\<close> with \<open>2 ^ k \<le> q < 2 ^ (k + 1)\<close>, for \<open>q > 0\<close>.\<close>

definition floorLog2 :: "rat \<Rightarrow> int" where
  "floorLog2 q = (if 1 \<le> q then bitlen \<lfloor>q\<rfloor> - 1 else - bitlen (\<lceil>1 / q\<rceil> - 1))"

definition pow2 :: "int \<Rightarrow> rat" where
  "pow2 e = (if 0 \<le> e then 2 ^ nat e else 1 / 2 ^ nat (- e))"

definition roundHalfEven :: "rat \<Rightarrow> int" where
  "roundHalfEven q =
     (let n = \<lfloor>q\<rfloor>; r = q - of_int n
      in if r < 1 / 2 then n else if 1 / 2 < r then n + 1 else if even n then n else n + 1)"

text \<open>The significand has 53 bits; the exponent of its last bit is at least \<open>- 1074\<close>.\<close>

definition toDouble :: "rat \<Rightarrow> rat" where
  "toDouble q =
     (if q = 0 then 0
      else (let e = max (floorLog2 \<bar>q\<bar> - 52) (- 1074);
                m = roundHalfEven (\<bar>q\<bar> / pow2 e)
            in sgn q * of_int m * pow2 e))"

text \<open>
  \<open>x.toFixed(1)\<close> writes the sign of \<open>x\<close> and the decimal \<open>n / 10\<close>, where \<open>n\<close> is the
  integer for which \<open>n / 10\<close> is nearest to the exact value of \<open>\<bar>x\<bar>\<close>, the larger one
  when two are equally near. \<open>toFixed1 x\<close> is the number that this string denotes. (From
  \<open>10 ^ 21\<close> on the method writes the number itself, which is an integer there, as
  \<open>toFixed1\<close> does.)
\<close>

definition toFixed1 :: "rat \<Rightarrow> rat" where
  "toFixed1 x = sgn x * of_int \<lfloor>10 * \<bar>x\<bar> + 1 / 2\<rfloor> / 10"

text \<open>\<open>parseFloat(x.toFixed(1))\<close>: the binary64 nearest to that decimal.\<close>

definition parseFloatToFixed1 :: "rat \<Rightarrow> rat" where
  "parseFloatToFixed1 x = toDouble (toFixed1 x)"

section \<open>Feedback queries (FeedbackService)\<close>

record FormattedFeedback =
  feedbackId :: ObjectId
  from_id :: ObjectId
  to_id :: ObjectId
  latestFeedback :: "FeedbackEntry option"
  historyCount :: nat
  fullHistory :: "FeedbackEntry list"

text \<open>The page that getFeedbackForUserCoach returns, without its \<open>totalPages\<close>, and with
  the sum \<open>totalRatings\<close> that the average is computed from, which the code keeps in a
  local constant.\<close>

record FeedbackPage =
  feedback :: "FormattedFeedback list"
  total :: nat
  currentPage :: int
  perPage :: int
  totalRatings :: rat
  averageRating :: rat

text \<open>\<open>fb.latestFeedback?.rating || 0\<close>.\<close>

definition latestRatingOr0 :: "FormattedFeedback \<Rightarrow> int" where
  "latestRatingOr0 fb =
     (case latestFeedback fb of
        None \<Rightarrow> 0
      | Some e \<Rightarrow> (case rating e of None \<Rightarrow> 0 | Some r \<Rightarrow> r))"

definition latestTimestampOr0 :: "FormattedFeedback \<Rightarrow> int" where
  "latestTimestampOr0 fb = (case latestFeedback fb of None \<Rightarrow> 0 | Some e \<Rightarrow> timestamp e)"

definition formatFeedback :: "Feedback \<Rightarrow> FormattedFeedback" where
  "formatFeedback fb =
     \<lparr>feedbackId = feedback_id fb, from_id = fb_from fb, to_id = fb_to fb,
      latestFeedback = (case history fb of [] \<Rightarrow> None | first # _ \<Rightarrow> Some first),
      historyCount = length (history fb),
      fullHistory = history fb\<rparr>"

text \<open>The catch block of getFeedbackForUserCoach turns every error into a 400.\<close>

definition feedbackQueryCatch :: "Thrown \<Rightarrow> Thrown" where
  "feedbackQueryCatch e =
     HttpError 400 (if thrownMessage e = [] then ''Failed to get feedback. Please try again later.''
                    else thrownMessage e)"

definition getFeedbackForUserCoach ::
  "Env \<Rightarrow> ObjectId \<Rightarrow> int \<Rightarrow> int \<Rightarrow> string \<Rightarrow> Store \<Rightarrow> Thrown + FeedbackPage" where
  "getFeedbackForUserCoach env userId perPage' page' sortBy s =
     (let matching = filter (\<lambda>fb. fb_to fb = userId \<and> history fb \<noteq> []) (feedbacks s);
          skipped = (page' - 1) * perPage';
          fetched = (if perPage' = 0 then drop (nat skipped) matching
                     else take (nat \<bar>perPage'\<bar>) (drop (nat skipped) matching));
          totalCount = length matching;
          formatted = map formatFeedback fetched;
          sorted = (if sortBy = ''rating''
                    then sort_key (\<lambda>fb. - latestRatingOr0 fb) formatted
                    else sort_key (\<lambda>fb. - latestTimestampOr0 fb) formatted);
          sumRatings = foldl (\<lambda>sum fb. toDouble (sum + of_int (latestRatingOr0 fb))) 0 sorted;
          average = (if length sorted > 0
                     then toDouble (sumRatings / of_nat (length sorted)) else 0)
      in (if skipped < 0
          then Inl (feedbackQueryCatch (MongoServerError 2 ''Skip value must be non-negative''))
          else if list_ex (\<lambda>fb. \<not> (userData env (fb_from fb) \<and> userData env (fb_to fb))) fetched
          then Inl (feedbackQueryCatch (TypeError ''Cannot read properties of null''))
          else Inr \<lparr>feedback = sorted, total = totalCount, currentPage = page', perPage = perPage',
                    totalRatings = sumRatings,
                    averageRating = parseFloatToFixed1 average\<rparr>))"

text \<open>The statistics. A rating that is undefined makes the sum, and with it the
  average, NaN (\<open>None\<close>). The counters are natural numbers: counting in binary64 is
  exact below \<open>2 ^ 53\<close>.\<close>

record FeedbackStats =
  stats_averageRating :: "rat option"
  totalReviews :: nat
  ratingDistribution :: "int \<Rightarrow> nat"

record StatsAcc =
  totalRating :: "rat option"
  ratingCount :: nat
  distribution :: "int \<Rightarrow> nat"

text \<open>The callback of \<open>feedback.forEach\<close>.\<close>

definition statsStep :: "StatsAcc \<Rightarrow> Feedback \<Rightarrow> StatsAcc" where
  "statsStep acc fb =
     (case history fb of
        [] \<Rightarrow> acc
      | first # _ \<Rightarrow>
          \<lparr>totalRating = (case (totalRating acc, rating first) of
                            (Some t, Some r) \<Rightarrow> Some (toDouble (t + of_int r))
                          | _ \<Rightarrow> None),
           ratingCount = ratingCount acc + 1,
           distribution = (case rating first of
                             None \<Rightarrow> distribution acc
                           | Some r \<Rightarrow>
                               if 1 \<le> r \<and> r \<le> 5
                               then (distribution acc)(r := distribution acc r + 1)
                               else distribution acc)\<rparr>)"

definition getCoachFeedbackStats :: "ObjectId \<Rightarrow> Store \<Rightarrow> FeedbackStats" where
  "getCoachFeedbackStats coachId' s =
     (let found = filter (\<lambda>fb. fb_to fb = coachId') (feedbacks s);
          totalFeedback = length found;
          acc = foldl statsStep \<lparr>totalRating = Some 0, ratingCount = 0, distribution = (\<lambda>_. 0)\<rparr> found;
          average = (if ratingCount acc > 0
                     then map_option (\<lambda>t. toDouble (t / of_nat (ratingCount acc))) (totalRating acc)
                     else Some 0)
      in (if totalFeedback = 0
          then \<lparr>stats_averageRating = Some 0, totalReviews = 0, ratingDistribution = (\<lambda>_. 0)\<rparr>
          else \<lparr>stats_averageRating = map_option parseFloatToFixed1 average,
                totalReviews = totalFeedback,
                ratingDistribution = distribution acc\<rparr>))"

text \<open>The ratings that the statistics read from a list of ledgers: the first rating of
  every ledger that has an entry.\<close>

abbreviation ratingsOf :: "Feedback list \<Rightarrow> int option list" where
  "ratingsOf fs \<equiv> map (\<lambda>fb. rating (hd (history fb))) (filter (\<lambda>fb. history fb \<noteq> []) fs)"

section \<open>Example data\<close>

text \<open>
  A small gym in January 1970: two slots, two coaches (20 and 21) with one workout each,
  two clients (10 and 11). \<open>exampleEnv t\<close> is the environment at time \<open>t\<close>, in which no
  save fails; \<open>faultyEnv n\<close> makes save number \<open>n\<close> of a call throw.
\<close>

definition exampleEnv :: "Date \<Rightarrow> Env" where
  "exampleEnv t =
     \<lparr>now = t,
      parseDate = (\<lambda>str. if str = ''1970-01-02T01:00:00'' then Some 90000000 else None),
      monthStart = (\<lambda>_. 0),
      civilDate = (\<lambda>y m d. if y = 1970 \<and> m = 0 then Some ((d - 1) * 86400000) else None),
      coachData = (\<lambda>i. i = 20 \<or> i = 21),
      userData = (\<lambda>i. i = 10 \<or> i = 11 \<or> i = 20 \<or> i = 21),
      saveFault = (\<lambda>_. None)\<rparr>"

definition faultyEnv :: "nat \<Rightarrow> Env" where
  "faultyEnv n =
     (exampleEnv 0)\<lparr>saveFault :=
        (\<lambda>k. if k = n then Some (ServerError 112 ''WriteConflict'') else None)\<rparr>"

definition exampleStore :: Store where
  "exampleStore =
     \<lparr>timeSlots = [\<lparr>slot_id = 5, startTime = ''09:00'', endTime = ''10:00''\<rparr>,
                   \<lparr>slot_id = 6, startTime = ''10:00'', endTime = ''11:00''\<rparr>],
      workouts = [\<lparr>workout_id = 30, workoutType = 40, workout_coachId = 20\<rparr>,
                  \<lparr>workout_id = 31, workoutType = 40, workout_coachId = 21\<rparr>],
      workoutOptions = [40],
      bookings = [], feedbacks = [], nextId = 100\<rparr>"

text \<open>Client 10 has booked coach 20 in the first slot on 3 January, 00:00.\<close>

definition exampleBooking :: Booking where
  "exampleBooking =
     \<lparr>booking_id = 102, timeSlotId = 5, coachId = 20, clientId = 10,
      workoutId = 30, date = 172800000, state = SCHEDULED,
      clientFeedback = Some 100, coachFeedback = Some 101\<rparr>"

definition bookedStore :: Store where
  "bookedStore =
     exampleStore\<lparr>bookings := [exampleBooking],
                   feedbacks := [\<lparr>feedback_id = 100, fb_from = 10, fb_to = 20, history = []\<rparr>,
                                 \<lparr>feedback_id = 101, fb_from = 20, fb_to = 10, history = []\<rparr>],
                   nextId := 103\<rparr>"

definition cancelledStore :: Store where
  "cancelledStore = bookedStore\<lparr>bookings := [exampleBooking\<lparr>state := CANCELLED\<rparr>]\<rparr>"

text \<open>The same booking made for the last millisecond of 3 January.\<close>

definition lateStore :: Store where
  "lateStore =
     exampleStore\<lparr>bookings := [exampleBooking\<lparr>date := 259199999\<rparr>],
                   feedbacks := [\<lparr>feedback_id = 100, fb_from = 10, fb_to = 20, history = []\<rparr>,
                                 \<lparr>feedback_id = 101, fb_from = 20, fb_to = 10, history = []\<rparr>],
                   nextId := 103\<rparr>"

text \<open>The accumulator that the statistics start from.\<close>

definition emptyAcc :: StatsAcc where
  "emptyAcc = \<lparr>totalRating = Some 0, ratingCount = 0, distribution = (\<lambda>_. 0)\<rparr>"

text \<open>A ledger addressed to coach 20 that holds two entries, the later one last.\<close>

definition reviewStore :: Store where
  "reviewStore =
     exampleStore\<lparr>feedbacks :=
       [\<lparr>feedback_id = 100, fb_from = 10, fb_to = 20,
         history = [\<lparr>entry_message = ''bad'', rating = Some 1, timestamp = 1000\<rparr>,
                    \<lparr>entry_message = ''great'', rating = Some 5, timestamp = 2000\<rparr>]\<rparr>]\<rparr>"

text \<open>Coach 20 after four bookings: three clients have rated the session with 5, 4 and 4,
  the ledger of the fourth booking is still empty; one more ledger is addressed to
  coach 21.\<close>

definition ratedStore :: Store where
  "ratedStore =
     exampleStore\<lparr>feedbacks :=
       [\<lparr>feedback_id = 100, fb_from = 10, fb_to = 20,
         history = [\<lparr>entry_message = ''great'', rating = Some 5, timestamp = 1000\<rparr>]\<rparr>,
        \<lparr>feedback_id = 103, fb_from = 11, fb_to = 20,
         history = [\<lparr>entry_message = ''good'', rating = Some 4, timestamp = 2000\<rparr>]\<rparr>,
        \<lparr>feedback_id = 106, fb_from = 10, fb_to = 20, history = []\<rparr>,
        \<lparr>feedback_id = 109, fb_from = 10, fb_to = 21,
         history = [\<lparr>entry_message = ''poor'', rating = Some 1, timestamp = 2500\<rparr>]\<rparr>,
        \<lparr>feedback_id = 112, fb_from = 11, fb_to = 20,
         history = [\<lparr>entry_message = ''fine'', rating = Some 4, timestamp = 3000\<rparr>]\<rparr>]\<rparr>"

text \<open>Both coaches are booked in slot 5 on 3 January, by different clients.\<close>

definition twoCoachStore :: Store where
  "twoCoachStore =
     exampleStore\<lparr>bookings :=
         [\<lparr>booking_id = 102, timeSlotId = 5, coachId = 21, clientId = 11,
           workoutId = 31, date = 172800000, state = SCHEDULED,
           clientFeedback = Some 100, coachFeedback = Some 101\<rparr>,
          \<lparr>booking_id = 105, timeSlotId = 5, coachId = 20, clientId = 10,
           workoutId = 30, date = 172800000, state = SCHEDULED,
           clientFeedback = Some 103, coachFeedback = Some 104\<rparr>],
       feedbacks :=
         [\<lparr>feedback_id = 100, fb_from = 11, fb_to = 21, history = []\<rparr>,
          \<lparr>feedback_id = 101, fb_from = 21, fb_to = 11, history = []\<rparr>,
          \<lparr>feedback_id = 103, fb_from = 10, fb_to = 20, history = []\<rparr>,
          \<lparr>feedback_id = 104, fb_from = 20, fb_to = 10, history = []\<rparr>],
       nextId := 106\<rparr>"

section \<open>Auxiliary facts\<close>

lemma find_map_replace:
  "find (\<lambda>x. k x = i) (map (\<lambda>x. if k x = i then y else x) xs)
     = (if k y = i then map_option (\<lambda>_. y) (find (\<lambda>x. k x = i) xs) else None)"
  by (induction xs) auto

lemma findBooking_updateBooking:
  "findBooking (booking_id b) (updateBooking b s)
     = map_option (\<lambda>_. b) (findBooking (booking_id b) s)"
  by (simp add: findBooking_def updateBooking_def find_map_replace)

lemma findBooking_id: "findBooking i s = Some b \<Longrightarrow> booking_id b = i"
  by (auto simp: findBooking_def find_Some_iff)

lemma findBooking_bookedStore: "findBooking 102 bookedStore = Some exampleBooking"
  by (simp add: findBooking_def bookedStore_def exampleBooking_def)

lemma findBooking_cancelledStore:
  "findBooking 102 cancelledStore = Some (exampleBooking\<lparr>state := CANCELLED\<rparr>)"
  by (simp add: findBooking_def cancelledStore_def exampleBooking_def)

lemma withTransaction_Inl:
  "fst (withTransaction f s) = Inl e \<Longrightarrow> snd (withTransaction f s) = s"
  by (auto simp: withTransaction_def Let_def split: sum.splits)

lemma withTransaction_Inr:
  "fst (withTransaction f s) = Inr v \<Longrightarrow> f s = (Inr v, snd (withTransaction f s))"
  by (cases "f s") (auto simp: withTransaction_def Let_def split: sum.splits)

lemma bookTransaction_Inr:
  "bookTransaction env cl w c sl d s = (Inr b, s') \<Longrightarrow>
     feedbacks s' = feedbacks s @ [\<lparr>feedback_id = nextId s, fb_from = cl, fb_to = c, history = []\<rparr>,
                                  \<lparr>feedback_id = nextId s + 1, fb_from = c, fb_to = cl, history = []\<rparr>]
     \<and> bookings s' = bookings s @ [b]
     \<and> b = \<lparr>booking_id = nextId s + 2, timeSlotId = sl, coachId = c, clientId = cl,
            workoutId = w, date = d, state = SCHEDULED,
            clientFeedback = Some (nextId s), coachFeedback = Some (nextId s + 1)\<rparr>
     \<and> timeSlots s' = timeSlots s \<and> workouts s' = workouts s
     \<and> workoutOptions s' = workoutOptions s \<and> nextId s' = nextId s + 3"
  by (auto simp: bookTransaction_def Let_def split: option.splits)

lemma bookWorkout_Inl: "bookWorkout env cl w c sl d s = (Inl e, s') \<Longrightarrow> s' = s"
  by (auto simp: bookWorkout_def Let_def withTransaction_Inl
           split: sum.splits if_splits option.splits)

lemma bookWorkout_Inr:
  assumes "bookWorkout env cl w c sl d s = (Inr b, s')"
  shows "\<exists>bookingDate. parseAndValidateDate env d = Inr bookingDate
           \<and> bookTransaction env cl w c sl bookingDate s = (Inr b, s')"
  using assms
  by (auto simp: bookWorkout_def Let_def split: sum.splits if_splits option.splits
           dest: withTransaction_Inr)

lemmas book_eval = bookWorkout_def parseAndValidateDate_def bookingDateOf_def setHours_def startOfDay_def
  isTimeSlotPassed_def findTimeSlot_def withTransaction_def bookTransaction_def
  exampleEnv_def exampleStore_def faultyEnv_def Let_def

lemma book_example:
  "bookWorkout (exampleEnv 0) 10 30 20 5 (DateObject (Some 172800000)) exampleStore
     = (Inr exampleBooking, bookedStore)"
  by (simp add: book_eval exampleBooking_def bookedStore_def)

lemma book_faulty:
  "fst (bookWorkout (faultyEnv 2) 10 30 20 5 (DateObject (Some 172800000)) exampleStore)
     = Inl (HttpError 500 ''Failed to book workout'')"
  by (simp add: book_eval)

section \<open>Cancellation policy\<close>

text \<open>
  C3. For a booking that exists: cancelBooking rejects, leaving the store as it was,
  whenever the state is not \<open>scheduled\<close> (cancelled, completed or waiting for feedback);
  for an actor that is the booking's client or coach it rejects with a 400 whenever the
  whole hours from now to the booking date, rounded down, are fewer than 12; and when the
  state is \<open>scheduled\<close>, the floored difference is at least 12 and the save goes through,
  it succeeds and the stored booking is the old one with state \<open>cancelled\<close>.
\<close>

theorem cancelBooking_policy:
  assumes found: "findBooking bookingId s = Some b"
  shows "(state b \<noteq> SCHEDULED \<longrightarrow> (\<exists>e. cancelBooking env bookingId userId s = (Inl e, s)))
       \<and> (userData env userId \<and> (clientId b = userId \<or> coachId b = userId)
            \<and> (date b - now env) div 3600000 < 12
          \<longrightarrow> (\<exists>m. cancelBooking env bookingId userId s = (Inl (HttpError 400 m), s)))
       \<and> (userData env userId \<and> (clientId b = userId \<or> coachId b = userId)
            \<and> state b = SCHEDULED \<and> 12 \<le> (date b - now env) div 3600000
            \<and> saveFault env 0 = None
          \<longrightarrow> (\<exists>s'. cancelBooking env bookingId userId s = (Inr (b\<lparr>state := CANCELLED\<rparr>), s')
                    \<and> findBooking bookingId s' = Some (b\<lparr>state := CANCELLED\<rparr>)))"
proof (intro conjI impI)
  assume "state b \<noteq> SCHEDULED"
  then show "\<exists>e. cancelBooking env bookingId userId s = (Inl e, s)"
    using found by (cases "state b") (auto simp: cancelBooking_def Let_def split: option.splits)
next
  assume "userData env userId \<and> (clientId b = userId \<or> coachId b = userId)
            \<and> (date b - now env) div 3600000 < 12"
  then show "\<exists>m. cancelBooking env bookingId userId s = (Inl (HttpError 400 m), s)"
    using found by (cases "state b") (auto simp: cancelBooking_def Let_def)
next
  assume a: "userData env userId \<and> (clientId b = userId \<or> coachId b = userId)
            \<and> state b = SCHEDULED \<and> 12 \<le> (date b - now env) div 3600000
            \<and> saveFault env 0 = None"
  have id: "booking_id b = bookingId" using found by (rule findBooking_id)
  have "findBooking bookingId (updateBooking (b\<lparr>state := CANCELLED\<rparr>) s)
          = Some (b\<lparr>state := CANCELLED\<rparr>)"
    using findBooking_updateBooking[of "b\<lparr>state := CANCELLED\<rparr>" s] found id by simp
  moreover have "cancelBooking env bookingId userId s
      = (Inr (b\<lparr>state := CANCELLED\<rparr>), updateBooking (b\<lparr>state := CANCELLED\<rparr>) s)"
    using a found by (auto simp: cancelBooking_def Let_def)
  ultimately show "\<exists>s'. cancelBooking env bookingId userId s = (Inr (b\<lparr>state := CANCELLED\<rparr>), s')
                    \<and> findBooking bookingId s' = Some (b\<lparr>state := CANCELLED\<rparr>)"
    by blast
qed

text \<open>The three cases on the example: a cancelled booking, a scheduled one 11 hours and
  59 minutes ahead, and a scheduled one two days ahead.\<close>

theorem cancelBooking_policy_witness:
  "(\<exists>e. cancelBooking (exampleEnv 0) 102 10 cancelledStore = (Inl e, cancelledStore))
   \<and> (\<exists>m. cancelBooking (exampleEnv (172800000 - 43140000)) 102 10 bookedStore
            = (Inl (HttpError 400 m), bookedStore))
   \<and> (\<exists>s'. cancelBooking (exampleEnv 0) 102 10 bookedStore
              = (Inr (exampleBooking\<lparr>state := CANCELLED\<rparr>), s')
            \<and> findBooking 102 s' = Some (exampleBooking\<lparr>state := CANCELLED\<rparr>))"
proof (intro conjI)
  show "\<exists>e. cancelBooking (exampleEnv 0) 102 10 cancelledStore = (Inl e, cancelledStore)"
    using cancelBooking_policy [OF findBooking_cancelledStore, of "exampleEnv 0" 10]
    by (simp add: exampleBooking_def)
  show "\<exists>m. cancelBooking (exampleEnv (172800000 - 43140000)) 102 10 bookedStore
            = (Inl (HttpError 400 m), bookedStore)"
    using cancelBooking_policy [OF findBooking_bookedStore,
            of "exampleEnv (172800000 - 43140000)" 10]
    by (simp add: exampleBooking_def exampleEnv_def)
  show "\<exists>s'. cancelBooking (exampleEnv 0) 102 10 bookedStore
              = (Inr (exampleBooking\<lparr>state := CANCELLED\<rparr>), s')
            \<and> findBooking 102 s' = Some (exampleBooking\<lparr>state := CANCELLED\<rparr>)"
    using cancelBooking_policy [OF findBooking_bookedStore, of "exampleEnv 0" 10]
    by (simp add: exampleBooking_def exampleEnv_def)
qed

section \<open>Atomicity of booking\<close>

text \<open>
  C4. Whatever bookWorkout answers, the store afterwards is either the store before (when
  it answers with an error, also one thrown by any of the three saves inside the
  transaction), or the store before with exactly three more documents: the client-to-coach
  ledger, the coach-to-client ledger, both with an empty history, and the booking that
  refers to the two ledgers and is in state \<open>scheduled\<close>.
\<close>

theorem bookWorkout_atomic:
  assumes "bookWorkout env cl w c sl d s = (r, s')"
  shows "case r of
           Inl e \<Rightarrow> s' = s
         | Inr b \<Rightarrow>
             (\<exists>clientFb coachFb.
                feedbacks s' = feedbacks s @ [clientFb, coachFb]
              \<and> bookings s' = bookings s @ [b]
              \<and> fb_from clientFb = cl \<and> fb_to clientFb = c \<and> history clientFb = []
              \<and> fb_from coachFb = c \<and> fb_to coachFb = cl \<and> history coachFb = []
              \<and> clientFeedback b = Some (feedback_id clientFb)
              \<and> coachFeedback b = Some (feedback_id coachFb)
              \<and> state b = SCHEDULED
              \<and> clientId b = cl \<and> coachId b = c \<and> workoutId b = w \<and> timeSlotId b = sl)"
proof (cases r)
  case (Inl e)
  with assms show ?thesis by (simp add: bookWorkout_Inl)
next
  case (Inr b)
  with assms obtain bookingDate where
    "bookTransaction env cl w c sl bookingDate s = (Inr b, s')"
    using bookWorkout_Inr by blast
  from bookTransaction_Inr[OF this] Inr show ?thesis by auto
qed

text \<open>On the example: when the third save (the booking) throws after both ledgers were
  written, the store is unchanged; when nothing throws, all three documents are there.\<close>

theorem bookWorkout_atomic_witness:
  "fst (bookWorkout (faultyEnv 2) 10 30 20 5 (DateObject (Some 172800000)) exampleStore)
     = Inl (HttpError 500 ''Failed to book workout'')
   \<and> snd (bookWorkout (faultyEnv 2) 10 30 20 5 (DateObject (Some 172800000)) exampleStore)
     = exampleStore
   \<and> bookWorkout (exampleEnv 0) 10 30 20 5 (DateObject (Some 172800000)) exampleStore
     = (Inr exampleBooking, bookedStore)
   \<and> length (feedbacks bookedStore) = length (feedbacks exampleStore) + 2
   \<and> bookings bookedStore = bookings exampleStore @ [exampleBooking]"
proof (intro conjI)
  show "snd (bookWorkout (faultyEnv 2) 10 30 20 5 (DateObject (Some 172800000)) exampleStore)
          = exampleStore"
    using bookWorkout_atomic [OF surjective_pairing, of "faultyEnv 2" 10 30 20 5
            "DateObject (Some 172800000)" exampleStore]
    by (simp add: book_faulty)
  show "length (feedbacks bookedStore) = length (feedbacks exampleStore) + 2"
    using bookWorkout_atomic [OF book_example] by auto
  show "bookings bookedStore = bookings exampleStore @ [exampleBooking]"
    using bookWorkout_atomic [OF book_example] by auto
qed (simp_all add: book_faulty book_example)

section \<open>The cutoff of a time slot\<close>

lemma startOfDay_le: "startOfDay d \<le> d"
  by (simp add: startOfDay_def)

lemma startOfDay_gt: "d < startOfDay d + 86400000"
  by (simp add: startOfDay_def)

lemma floor_step:
  fixes N :: int
  assumes N: "0 < N" and lt: "a - a mod N < b - b mod N"
  shows "a - a mod N + N \<le> b - b mod N"
proof -
  have ea: "a - a mod N = N * (a div N)" and eb: "b - b mod N = N * (b div N)"
    by (simp_all add: minus_mod_eq_mult_div)
  from lt have "N * (a div N) < N * (b div N)" by (simp only: ea eb)
  with N have "a div N < b div N" by (simp only: mult_less_cancel_left_pos)
  then have "a div N + 1 \<le> b div N" by simp
  with N have "N * (a div N + 1) \<le> N * (b div N)" by (simp only: mult_le_cancel_left_pos)
  then show ?thesis by (simp only: ea eb distrib_left mult_1_right)
qed

lemma startOfDay_next:
  assumes "startOfDay a < startOfDay b"
  shows "startOfDay a + 86400000 \<le> startOfDay b"
  using floor_step[of 86400000 a b] assms unfolding startOfDay_def by simp

lemma digitValue_nonneg: "digitValue c = Some v \<Longrightarrow> 0 \<le> v"
  by (auto simp: digitValue_def split: if_splits)

lemma digit_or0_nonneg: "0 \<le> (case digitValue c of Some v \<Rightarrow> v | None \<Rightarrow> 0)"
  by (cases "digitValue c") (simp_all add: digitValue_nonneg)

lemma decimalValue_nonneg: "0 \<le> acc \<Longrightarrow> 0 \<le> decimalValue acc s"
proof (induction s arbitrary: acc)
  case Nil
  then show ?case by simp
next
  case (Cons c cs)
  have "0 \<le> 10 * acc + (case digitValue c of Some v \<Rightarrow> v | None \<Rightarrow> 0)"
    using Cons.prems digit_or0_nonneg[of c] by simp
  from Cons.IH[OF this] show ?case by simp
qed

lemma Number_nonneg: "Number s = Some v \<Longrightarrow> 0 \<le> v"
  by (auto simp: Number_def decimalValue_nonneg split: if_splits)

lemma hoursMinutes_nonneg: "hoursMinutes t = Some (h, m) \<Longrightarrow> 0 \<le> h \<and> 0 \<le> m"
  by (auto simp: hoursMinutes_def split: list.splits option.splits dest: Number_nonneg)

lemma isTimeSlotPassed_iff:
  assumes hm: "hoursMinutes startT = Some (h, m)"
    and notPast: "startOfDay (now env) \<le> startOfDay D"
  shows "isTimeSlotPassed env D startT \<longleftrightarrow> setHours D h m 0 0 < now env"
proof (cases "startOfDay D = startOfDay (now env)")
  case True
  then show ?thesis using hm by (simp add: isTimeSlotPassed_def setHours_def)
next
  case False
  with notPast have "startOfDay (now env) < startOfDay D" by simp
  from startOfDay_next[OF this] startOfDay_gt[of "now env"] have "now env < startOfDay D" by simp
  moreover have "0 \<le> h" "0 \<le> m" using hoursMinutes_nonneg[OF hm] by simp_all
  ultimately have "\<not> setHours D h m 0 0 < now env" by (simp add: setHours_def)
  with False show ?thesis by (simp add: isTimeSlotPassed_def setHours_def)
qed

lemma parseAndValidateDate_Inr:
  "parseAndValidateDate env d = Inr D \<Longrightarrow> startOfDay (now env) \<le> startOfDay D"
  by (auto simp: parseAndValidateDate_def Let_def setHours_def split: option.splits if_splits)

lemma hm_0900: "hoursMinutes ''09:00'' = Some (9, 0)"
  by (simp add: hoursMinutes_def Number_def isDigits_def digitValue_def)

lemma hm_1000: "hoursMinutes ''10:00'' = Some (10, 0)"
  by (simp add: hoursMinutes_def Number_def isDigits_def digitValue_def)

lemma bookCatch_thrown:
  "bookCatch (thrown e) \<noteq> HttpError 400 ''Cannot book a time slot that has already passed''"
  by (cases e) auto

lemma bookTransaction_Inl:
  "fst (withTransaction (bookTransaction env cl w c sl D) s) = Inl e \<Longrightarrow> \<exists>x. e = thrown x"
  by (auto simp: withTransaction_def bookTransaction_def Let_def split: option.splits sum.splits)

text \<open>
  C5 (as amended). Once the date is accepted, the coach and the workout are found and the
  time slot exists, bookWorkout rejects with ``Cannot book a time slot that has already
  passed'' exactly when the slot's start time, put on the day of the booking date, is
  strictly before now. The end time of the slot plays no part.
\<close>

theorem bookWorkout_slot_cutoff:
  assumes dateOk: "parseAndValidateDate env d = Inr D"
    and coach: "coachData env c"
    and workout: "find (\<lambda>x. workout_id x = w \<and> workout_coachId x = c) (workouts s) = Some wk"
    and slot: "findTimeSlot sl s = Some slot"
    and hm: "hoursMinutes (startTime slot) = Some (h, m)"
  shows "fst (bookWorkout env cl w c sl d s)
           = Inl (HttpError 400 ''Cannot book a time slot that has already passed'')
         \<longleftrightarrow> setHours D h m 0 0 < now env"
proof -
  have iff: "isTimeSlotPassed env D (startTime slot) \<longleftrightarrow> setHours D h m 0 0 < now env"
    using isTimeSlotPassed_iff[OF hm parseAndValidateDate_Inr[OF dateOk]] .
  show ?thesis
  proof (cases "isTimeSlotPassed env D (startTime slot)")
    case True
    then show ?thesis using iff assms by (simp add: bookWorkout_def)
  next
    case False
    let ?r = "withTransaction (bookTransaction env cl w c sl D) s"
    have r: "fst (case fst ?r of
                    Inl e \<Rightarrow> (Inl (bookCatch e), snd ?r)
                  | Inr b \<Rightarrow> (Inr b, snd ?r))
               \<noteq> Inl (HttpError 400 ''Cannot book a time slot that has already passed'')"
    proof (cases "fst ?r")
      case (Inl e)
      then obtain x where "e = thrown x" using bookTransaction_Inl by blast
      with Inl show ?thesis by (simp add: bookCatch_thrown)
    next
      case (Inr b)
      then show ?thesis by simp
    qed
    have "fst (bookWorkout env cl w c sl d s)
           \<noteq> Inl (HttpError 400 ''Cannot book a time slot that has already passed'')"
      using False assms r by (simp add: bookWorkout_def Let_def)
    then show ?thesis using iff False by simp
  qed
qed

lemma slot5: "findTimeSlot 5 exampleStore = Some \<lparr>slot_id = 5, startTime = ''09:00'', endTime = ''10:00''\<rparr>"
  by (simp add: findTimeSlot_def exampleStore_def)

text \<open>
  C5 as stated fails: at 09:30 on the day of the booking the slot 09:00 to 10:00 has not
  ended, and bookWorkout rejects it as passed.
\<close>

theorem slot_end_counterexample:
  "hoursMinutes (endTime \<lparr>slot_id = 5, startTime = ''09:00'', endTime = ''10:00''\<rparr>) = Some (10, 0)
   \<and> now (exampleEnv 207000000) < setHours 172800000 10 0 0 0
   \<and> bookWorkout (exampleEnv 207000000) 10 30 20 5 (DateObject (Some 172800000)) exampleStore
       = (Inl (HttpError 400 ''Cannot book a time slot that has already passed''), exampleStore)"
  by (simp add: hm_1000 hm_0900 book_eval)

text \<open>The cutoff on the example, at 09:30 and at 09:00 of the booking day.\<close>

theorem bookWorkout_slot_cutoff_witness:
  "fst (bookWorkout (exampleEnv 207000000) 10 30 20 5 (DateObject (Some 172800000)) exampleStore)
     = Inl (HttpError 400 ''Cannot book a time slot that has already passed'')
   \<and> fst (bookWorkout (exampleEnv 205200000) 10 30 20 5 (DateObject (Some 172800000)) exampleStore)
     \<noteq> Inl (HttpError 400 ''Cannot book a time slot that has already passed'')"
proof
  have d1: "parseAndValidateDate (exampleEnv 207000000) (DateObject (Some 172800000)) = Inr 172800000"
    by (simp add: parseAndValidateDate_def bookingDateOf_def setHours_def startOfDay_def exampleEnv_def Let_def)
  have d2: "parseAndValidateDate (exampleEnv 205200000) (DateObject (Some 172800000)) = Inr 172800000"
    by (simp add: parseAndValidateDate_def bookingDateOf_def setHours_def startOfDay_def exampleEnv_def Let_def)
  have c: "\<And>t. coachData (exampleEnv t) 20" by (simp add: exampleEnv_def)
  have w: "find (\<lambda>x. workout_id x = 30 \<and> workout_coachId x = 20) (workouts exampleStore)
             = Some \<lparr>workout_id = 30, workoutType = 40, workout_coachId = 20\<rparr>"
    by (simp add: exampleStore_def)
  have h: "hoursMinutes (startTime \<lparr>slot_id = 5, startTime = ''09:00'', endTime = ''10:00''\<rparr>) = Some (9, 0)"
    by (simp add: hm_0900)
  show "fst (bookWorkout (exampleEnv 207000000) 10 30 20 5 (DateObject (Some 172800000)) exampleStore)
     = Inl (HttpError 400 ''Cannot book a time slot that has already passed'')"
    using bookWorkout_slot_cutoff [OF d1 c w slot5 h, of 10]
    by (simp add: setHours_def startOfDay_def exampleEnv_def)
  show "fst (bookWorkout (exampleEnv 205200000) 10 30 20 5 (DateObject (Some 172800000)) exampleStore)
     \<noteq> Inl (HttpError 400 ''Cannot book a time slot that has already passed'')"
    using bookWorkout_slot_cutoff [OF d2 c w slot5 h, of 10]
    by (simp add: setHours_def startOfDay_def exampleEnv_def)
qed

section \<open>Double booking\<close>

lemma book_late:
  "bookWorkout (exampleEnv 0) 10 30 20 5 (DateObject (Some 259199999)) exampleStore
     = (Inr (exampleBooking\<lparr>date := 259199999\<rparr>), lateStore)"
  by (simp add: book_eval exampleBooking_def lateStore_def)

lemma book_late_other_client:
  "fst (bookWorkout (exampleEnv 0) 11 30 20 5 (DateObject (Some 259199999)) lateStore)
     = Inr \<lparr>booking_id = 105, timeSlotId = 5, coachId = 20, clientId = 11,
            workoutId = 30, date = 259199999, state = SCHEDULED,
            clientFeedback = Some 103, coachFeedback = Some 104\<rparr>"
  by (simp add: book_eval exampleBooking_def lateStore_def)

lemma book_late_other_coach:
  "fst (bookWorkout (exampleEnv 0) 10 31 21 5 (DateObject (Some 259199999)) lateStore)
     = Inr \<lparr>booking_id = 105, timeSlotId = 5, coachId = 21, clientId = 10,
            workoutId = 31, date = 259199999, state = SCHEDULED,
            clientFeedback = Some 103, coachFeedback = Some 104\<rparr>"
  by (simp add: book_eval exampleBooking_def lateStore_def)

text \<open>
  C1 fails for a booking whose date is the last millisecond of its day: client 10 books
  coach 20 in slot 5 for 3 January 23:59:59.999, and afterwards both client 11 with the
  same coach, slot and date and client 10 with coach 21, the same slot and date are
  accepted, where C1 demands a conflict. The range of the conflict query ends at
  23:59:59.999 of the day and excludes that bound.
\<close>

theorem double_booking_last_millisecond:
  "bookWorkout (exampleEnv 0) 10 30 20 5 (DateObject (Some 259199999)) exampleStore
     = (Inr (exampleBooking\<lparr>date := 259199999\<rparr>), lateStore)
   \<and> fst (bookWorkout (exampleEnv 0) 11 30 20 5 (DateObject (Some 259199999)) lateStore)
     = Inr \<lparr>booking_id = 105, timeSlotId = 5, coachId = 20, clientId = 11,
            workoutId = 30, date = 259199999, state = SCHEDULED,
            clientFeedback = Some 103, coachFeedback = Some 104\<rparr>
   \<and> fst (bookWorkout (exampleEnv 0) 10 31 21 5 (DateObject (Some 259199999)) lateStore)
     = Inr \<lparr>booking_id = 105, timeSlotId = 5, coachId = 21, clientId = 10,
            workoutId = 31, date = 259199999, state = SCHEDULED,
            clientFeedback = Some 103, coachFeedback = Some 104\<rparr>"
  using book_late book_late_other_client book_late_other_coach by simp

lemma filter_nonempty: "x \<in> set xs \<Longrightarrow> P x \<Longrightarrow> 0 < length (filter P xs)"
  by (auto simp: filter_empty_conv)

text \<open>Away from the last millisecond of the day the conflict is found.\<close>

lemma bookWorkout_conflict:
  assumes first: "bookWorkout env cl w c sl d s = (Inr b, s')"
    and notLast: "date b < setHours (date b) 23 59 59 999"
    and dateOk: "parseAndValidateDate env' d' = Inr (date b)"
    and coach: "coachData env' c'"
    and workout: "find (\<lambda>x. workout_id x = w' \<and> workout_coachId x = c') (workouts s') = Some wk"
    and slot: "findTimeSlot sl s' = Some slot"
    and notPassed: "\<not> isTimeSlotPassed env' (date b) (startTime slot)"
    and same: "c' = c \<or> cl' = cl"
  shows "\<exists>m. bookWorkout env' cl' w' c' sl d' s' = (Inl (HttpError 409 m), s')"
proof -
  obtain D where tr: "bookTransaction env cl w c sl D s = (Inr b, s')"
    using bookWorkout_Inr[OF first] by blast
  note facts = bookTransaction_Inr[OF tr]
  have b: "coachId b = c" "clientId b = cl" "timeSlotId b = sl" "state b = SCHEDULED"
    using facts by simp_all
  have mem: "b \<in> set (bookings s')" using facts by simp
  have lo: "setHours (date b) 0 0 0 0 \<le> date b"
    by (simp add: setHours_def startOfDay_le)
  show ?thesis
  proof (cases "c' = c")
    case True
    have "0 < length (filter (\<lambda>x. coachId x = c' \<and> timeSlotId x = sl
                   \<and> setHours (date b) 0 0 0 0 \<le> date x \<and> date x < setHours (date b) 23 59 59 999
                   \<and> state x \<noteq> CANCELLED) (bookings s'))"
      using mem b lo notLast True by (intro filter_nonempty[of b]) simp_all
    then show ?thesis
      using dateOk coach workout slot notPassed by (simp add: bookWorkout_def Let_def)
  next
    case False
    with same have cl: "cl' = cl" by simp
    have "0 < length (filter (\<lambda>x. clientId x = cl' \<and> timeSlotId x = sl
                   \<and> setHours (date b) 0 0 0 0 \<le> date x \<and> date x < setHours (date b) 23 59 59 999
                   \<and> state x \<noteq> CANCELLED) (bookings s'))"
      using mem b lo notLast cl by (intro filter_nonempty[of b]) simp_all
    then show ?thesis
      using dateOk coach workout slot notPassed by (simp add: bookWorkout_def Let_def)
  qed
qed

text \<open>A booking that was cancelled does not stand in the way of the same request.\<close>

lemma bookWorkout_Inr_checks:
  assumes "bookWorkout env cl w c sl d s = (Inr b, s')"
  shows "\<exists>D wk slot. parseAndValidateDate env d = Inr D \<and> coachData env c
           \<and> find (\<lambda>x. workout_id x = w \<and> workout_coachId x = c) (workouts s) = Some wk
           \<and> findTimeSlot sl s = Some slot
           \<and> \<not> isTimeSlotPassed env D (startTime slot)
           \<and> filter (\<lambda>x. coachId x = c \<and> timeSlotId x = sl \<and> setHours D 0 0 0 0 \<le> date x
                        \<and> date x < setHours D 23 59 59 999 \<and> state x \<noteq> CANCELLED) (bookings s) = []
           \<and> filter (\<lambda>x. clientId x = cl \<and> timeSlotId x = sl \<and> setHours D 0 0 0 0 \<le> date x
                        \<and> date x < setHours D 23 59 59 999 \<and> state x \<noteq> CANCELLED) (bookings s) = []
           \<and> bookTransaction env cl w c sl D s = (Inr b, s')"
  using assms
  by (auto simp: bookWorkout_def Let_def split: sum.splits if_splits option.splits
           dest: withTransaction_Inr)

lemma cancelBooking_Inr:
  assumes "cancelBooking env i u s = (Inr b', s')"
  shows "\<exists>x. findBooking i s = Some x \<and> b' = x\<lparr>state := CANCELLED\<rparr>
           \<and> s' = updateBooking (x\<lparr>state := CANCELLED\<rparr>) s"
  using assms
  by (auto simp: cancelBooking_def Let_def split: option.splits if_splits)

lemma find_append_fresh:
  "\<forall>x\<in>set xs. \<not> P x \<Longrightarrow> find P (xs @ ys) = find P ys"
  by (induction xs) auto

lemma bookTransaction_ok:
  assumes "\<forall>n. saveFault env n = None"
  shows "\<exists>b s'. bookTransaction env cl w c sl D s = (Inr b, s')"
  using assms by (simp add: bookTransaction_def Let_def)

lemma bookWorkout_after_cancel:
  assumes first: "bookWorkout env cl w c sl d s = (Inr b, s1)"
    and fresh: "\<forall>x\<in>set (bookings s). booking_id x \<noteq> booking_id b"
    and cancel: "cancelBooking env2 (booking_id b) u s1 = (Inr b', s2)"
    and dateOk: "parseAndValidateDate env3 d3 = Inr (date b)"
    and coach: "coachData env3 c"
    and notPassed: "\<forall>slot. findTimeSlot sl s = Some slot \<longrightarrow> \<not> isTimeSlotPassed env3 (date b) (startTime slot)"
    and noFault: "\<forall>n. saveFault env3 n = None"
  shows "\<exists>b3 s3. bookWorkout env3 cl w c sl d3 s2 = (Inr b3, s3)"
proof -
  obtain D wk slot where
      wk: "find (\<lambda>x. workout_id x = w \<and> workout_coachId x = c) (workouts s) = Some wk"
    and slot: "findTimeSlot sl s = Some slot"
    and noCoach: "filter (\<lambda>x. coachId x = c \<and> timeSlotId x = sl \<and> setHours D 0 0 0 0 \<le> date x
                        \<and> date x < setHours D 23 59 59 999 \<and> state x \<noteq> CANCELLED) (bookings s) = []"
    and noClient: "filter (\<lambda>x. clientId x = cl \<and> timeSlotId x = sl \<and> setHours D 0 0 0 0 \<le> date x
                        \<and> date x < setHours D 23 59 59 999 \<and> state x \<noteq> CANCELLED) (bookings s) = []"
    and tr: "bookTransaction env cl w c sl D s = (Inr b, s1)"
    using bookWorkout_Inr_checks[OF first] by blast
  note facts = bookTransaction_Inr[OF tr]
  have D: "date b = D" using facts by simp
  have bs1: "bookings s1 = bookings s @ [b]" using facts by simp
  have fb: "findBooking (booking_id b) s1 = Some b"
    using fresh by (simp add: findBooking_def bs1 find_append_fresh)
  from cancelBooking_Inr[OF cancel] fb
  have s2: "s2 = updateBooking (b\<lparr>state := CANCELLED\<rparr>) s1" by auto
  have bs2: "bookings s2 = bookings s @ [b\<lparr>state := CANCELLED\<rparr>]"
    using fresh by (simp add: s2 updateBooking_def bs1 cong: map_cong)
  have same: "workouts s2 = workouts s" "timeSlots s2 = timeSlots s"
    using facts by (simp_all add: s2 updateBooking_def)
  have f1: "filter (\<lambda>x. coachId x = c \<and> timeSlotId x = sl \<and> setHours D 0 0 0 0 \<le> date x
                        \<and> date x < setHours D 23 59 59 999 \<and> state x \<noteq> CANCELLED) (bookings s2) = []"
    using noCoach by (simp add: bs2)
  have f2: "filter (\<lambda>x. clientId x = cl \<and> timeSlotId x = sl \<and> setHours D 0 0 0 0 \<le> date x
                        \<and> date x < setHours D 23 59 59 999 \<and> state x \<noteq> CANCELLED) (bookings s2) = []"
    using noClient by (simp add: bs2)
  obtain b3 s3 where t3: "bookTransaction env3 cl w c sl D s2 = (Inr b3, s3)"
    using bookTransaction_ok[OF noFault] by blast
  have "bookWorkout env3 cl w c sl d3 s2 = (Inr b3, s3)"
    using dateOk coach wk slot notPassed f1 f2 t3 D same
    by (simp add: bookWorkout_def Let_def findTimeSlot_def withTransaction_def)
  then show ?thesis by blast
qed

section \<open>Date validation\<close>











section \<open>Errors of the availability search\<close>

lemma forEachWorkout_length: "forEachWorkout f ws = Inr rs \<Longrightarrow> length rs = length ws"
proof (induction ws arbitrary: rs)
  case Nil
  then show ?case by simp
next
  case (Cons w ws)
  then show ?case by (auto split: sum.splits)
qed

lemma sort_key_Nil: "sort_key f xs = [] \<longleftrightarrow> xs = []"
  by (metis length_0_conv length_sort)

lemma search_not_empty: "searchWorkoutUsingFilters env wi ci ti date' s \<noteq> Inr []"
proof
  assume a: "searchWorkoutUsingFilters env wi ci ti date' s = Inr []"
  then obtain f found where "forEachWorkout f found = Inr []" "length found \<noteq> 0"
    by (auto simp: searchWorkoutUsingFilters_def Let_def split: option.splits if_splits)
  then show False using forEachWorkout_length by fastforce
qed

lemma validTimeSlots_today_empty:
  assumes "\<forall>slot\<in>set slots. \<forall>h m. hoursMinutes (startTime slot) = Some (h, m)
              \<longrightarrow> setHours (now env) h m 0 0 \<le> now env"
  shows "validTimeSlots env True (sort_key startTime slots) = []"
  using assms by (auto simp: validTimeSlots_def filter_empty_conv split: option.splits)

text \<open>
  C9. When the search date is valid, searchWorkoutUsingFilters answers an empty catalog
  with the 404 ``No time slots available''; a catalog whose slots have all started, on a
  search for today, with the 404 ``No available time slots for today''; and a requested
  time slot that is not among the valid ones with the 404 ``Selected time slot is not
  available''. The three errors differ, and the search never returns the empty list.
  getCoachAvailableTimeSlots answers an empty catalog with ``No time slots available'' too.
\<close>

theorem availability_errors:
  assumes sd: "searchDateOf env date' = Some sd"
    and notPast: "\<not> (dateGiven date' \<and> startOfDay sd < startOfDay (now env))"
  shows
   "(timeSlots s = []
       \<longrightarrow> searchWorkoutUsingFilters env wi ci ti date' s
           = Inl (HttpError 404 ''No time slots available''))
    \<and> (timeSlots s \<noteq> [] \<and> startOfDay sd = startOfDay (now env)
        \<and> (\<forall>slot\<in>set (timeSlots s). \<forall>h m. hoursMinutes (startTime slot) = Some (h, m)
              \<longrightarrow> setHours (now env) h m 0 0 \<le> now env)
       \<longrightarrow> searchWorkoutUsingFilters env wi ci ti date' s
           = Inl (HttpError 404 ''No available time slots for today''))
    \<and> (\<forall>i. ti = Some i
          \<and> validTimeSlots env (startOfDay sd = startOfDay (now env))
                (sort_key startTime (timeSlots s)) \<noteq> []
          \<and> i \<notin> slot_id ` set (validTimeSlots env (startOfDay sd = startOfDay (now env))
                                  (sort_key startTime (timeSlots s)))
       \<longrightarrow> searchWorkoutUsingFilters env wi ci ti date' s
           = Inl (HttpError 404 ''Selected time slot is not available''))
    \<and> searchWorkoutUsingFilters env wi ci ti date' s \<noteq> Inr []
    \<and> (timeSlots s = [] \<and> coachData env c
       \<longrightarrow> getCoachAvailableTimeSlots env c (Some D) s
           = Inl (HttpError 404 ''No time slots available''))
    \<and> HttpError 404 ''No time slots available'' \<noteq> HttpError 404 ''No available time slots for today''
    \<and> HttpError 404 ''No time slots available'' \<noteq> HttpError 404 ''Selected time slot is not available''
    \<and> HttpError 404 ''No available time slots for today''
          \<noteq> HttpError 404 ''Selected time slot is not available''"
proof (intro conjI impI allI)
  assume "timeSlots s = []"
  then show "searchWorkoutUsingFilters env wi ci ti date' s
           = Inl (HttpError 404 ''No time slots available'')"
    using sd notPast by (simp add: searchWorkoutUsingFilters_def Let_def setHours_def)
next
  assume a: "timeSlots s \<noteq> [] \<and> startOfDay sd = startOfDay (now env)
        \<and> (\<forall>slot\<in>set (timeSlots s). \<forall>h m. hoursMinutes (startTime slot) = Some (h, m)
              \<longrightarrow> setHours (now env) h m 0 0 \<le> now env)"
  then have "validTimeSlots env True (sort_key startTime (timeSlots s)) = []"
    using validTimeSlots_today_empty by blast
  moreover have "sort_key startTime (timeSlots s) \<noteq> []" using a by (simp add: sort_key_Nil)
  ultimately show "searchWorkoutUsingFilters env wi ci ti date' s
           = Inl (HttpError 404 ''No available time slots for today'')"
    using sd notPast a by (simp add: searchWorkoutUsingFilters_def Let_def setHours_def)
next
  fix i
  let ?valid = "validTimeSlots env (startOfDay sd = startOfDay (now env))
                  (sort_key startTime (timeSlots s))"
  assume a: "ti = Some i \<and> ?valid \<noteq> [] \<and> i \<notin> slot_id ` set ?valid"
  then have none: "find (\<lambda>slot. slot_id slot = i) ?valid = None"
    by (auto simp: find_None_iff)
  have "sort_key startTime (timeSlots s) \<noteq> []"
    using a by (auto simp: validTimeSlots_def split: if_splits)
  moreover have "?valid \<noteq> []" using a by simp
  ultimately show "searchWorkoutUsingFilters env wi ci ti date' s
           = Inl (HttpError 404 ''Selected time slot is not available'')"
    using sd notPast a none by (simp add: searchWorkoutUsingFilters_def Let_def setHours_def)
next
  show "searchWorkoutUsingFilters env wi ci ti date' s \<noteq> Inr []" by (rule search_not_empty)
next
  assume "timeSlots s = [] \<and> coachData env c"
  then show "getCoachAvailableTimeSlots env c (Some D) s
           = Inl (HttpError 404 ''No time slots available'')"
    by (simp add: getCoachAvailableTimeSlots_def)
qed simp_all

text \<open>The three errors on the example: no catalog, a search at 23:00 for today, and a
  request for a slot 7 that does not exist.\<close>

theorem availability_errors_witness:
  "searchWorkoutUsingFilters (exampleEnv 0) None None None None (exampleStore\<lparr>timeSlots := []\<rparr>)
     = Inl (HttpError 404 ''No time slots available'')
   \<and> searchWorkoutUsingFilters (exampleEnv 169200000) None None None None exampleStore
     = Inl (HttpError 404 ''No available time slots for today'')
   \<and> searchWorkoutUsingFilters (exampleEnv 0) None None (Some 7)
        (Some (DateObject (Some 172800000))) exampleStore
     = Inl (HttpError 404 ''Selected time slot is not available'')
   \<and> getCoachAvailableTimeSlots (exampleEnv 0) 20 (Some 172800000) (exampleStore\<lparr>timeSlots := []\<rparr>)
     = Inl (HttpError 404 ''No time slots available'')"
proof (intro conjI)
  have sd0: "searchDateOf (exampleEnv 0) None = Some 0"
    and np0: "\<not> (dateGiven None \<and> startOfDay 0 < startOfDay (now (exampleEnv 0)))"
    by (simp_all add: searchDateOf_def dateGiven_def exampleEnv_def)
  show "searchWorkoutUsingFilters (exampleEnv 0) None None None None (exampleStore\<lparr>timeSlots := []\<rparr>)
     = Inl (HttpError 404 ''No time slots available'')"
    using availability_errors [OF sd0 np0, of "exampleStore\<lparr>timeSlots := []\<rparr>" None None None]
    by simp
  show "getCoachAvailableTimeSlots (exampleEnv 0) 20 (Some 172800000) (exampleStore\<lparr>timeSlots := []\<rparr>)
     = Inl (HttpError 404 ''No time slots available'')"
    using availability_errors [OF sd0 np0, of "exampleStore\<lparr>timeSlots := []\<rparr>" None None None 20 172800000]
    by (simp add: exampleEnv_def)
next
  have sd: "searchDateOf (exampleEnv 169200000) None = Some 169200000"
    and np: "\<not> (dateGiven None \<and> startOfDay 169200000 < startOfDay (now (exampleEnv 169200000)))"
    by (simp_all add: searchDateOf_def dateGiven_def exampleEnv_def)
  have passed: "\<forall>slot\<in>set (timeSlots exampleStore). \<forall>h m. hoursMinutes (startTime slot) = Some (h, m)
              \<longrightarrow> setHours (now (exampleEnv 169200000)) h m 0 0 \<le> now (exampleEnv 169200000)"
    by (simp add: exampleStore_def exampleEnv_def hm_0900 hm_1000 setHours_def startOfDay_def)
  show "searchWorkoutUsingFilters (exampleEnv 169200000) None None None None exampleStore
     = Inl (HttpError 404 ''No available time slots for today'')"
    using availability_errors [OF sd np, of exampleStore None None None] passed
    by (simp add: exampleStore_def exampleEnv_def)
next
  have sd: "searchDateOf (exampleEnv 0) (Some (DateObject (Some 172800000))) = Some 172800000"
    and np: "\<not> (dateGiven (Some (DateObject (Some 172800000)))
                \<and> startOfDay 172800000 < startOfDay (now (exampleEnv 0)))"
    by (simp_all add: searchDateOf_def dateGiven_def exampleEnv_def startOfDay_def)
  have valid: "validTimeSlots (exampleEnv 0) (startOfDay 172800000 = startOfDay (now (exampleEnv 0)))
                 (sort_key startTime (timeSlots exampleStore)) = timeSlots exampleStore"
    by code_simp
  show "searchWorkoutUsingFilters (exampleEnv 0) None None (Some 7)
        (Some (DateObject (Some 172800000))) exampleStore
     = Inl (HttpError 404 ''Selected time slot is not available'')"
    using availability_errors [OF sd np, of exampleStore None None "Some 7"]
    by (simp add: valid) (simp add: exampleStore_def)
qed

section \<open>Rounding to binary64\<close>

lemma roundHalfEven_of_int: "roundHalfEven (of_int k) = k"
  by (simp add: roundHalfEven_def)

lemma pow2_nonpos: "e \<le> 0 \<Longrightarrow> pow2 e = 1 / 2 ^ nat (- e)"
  by (cases "e = 0") (simp_all add: pow2_def)

text \<open>Integers below \<open>2 ^ 53\<close> in magnitude are binary64 numbers.\<close>

lemma toDouble_of_int:
  assumes "\<bar>n\<bar> < 2 ^ 53"
  shows "toDouble (of_int n) = of_int n"
proof (cases "n = 0")
  case True
  then show ?thesis by (simp add: toDouble_def)
next
  case False
  define a where "a = \<bar>n\<bar>"
  define k where "k = nat (53 - bitlen a)"
  have a: "0 < a" "a < 2 ^ 53" using False assms by (simp_all add: a_def)
  have hi: "bitlen a \<le> 53" using a bitlen_le_iff_power[of a 53] by simp
  have lo: "1 \<le> bitlen a" using a bitlen_ge_iff_power[of 1 a] by simp
  have abs: "\<bar>of_int n :: rat\<bar> = of_int a" by (simp add: a_def)
  have fl: "floorLog2 (of_int a) = bitlen a - 1"
    using a by (simp add: floorLog2_def)
  have e: "max (floorLog2 (of_int a) - 52) (- 1074) = - int k"
    using hi lo by (simp add: fl k_def)
  have p: "pow2 (- int k) = 1 / 2 ^ k"
    using pow2_nonpos[of "- int k"] by simp
  have q: "(of_int a :: rat) / pow2 (- int k) = of_int (a * 2 ^ k)"
    by (simp add: p)
  have m: "roundHalfEven ((of_int a :: rat) / pow2 (- int k)) = a * 2 ^ k"
    by (simp only: q roundHalfEven_of_int)
  have nz: "(of_int n :: rat) \<noteq> 0" using False by simp
  have "toDouble (of_int n) = sgn (of_int n) * of_int (a * 2 ^ k) * pow2 (- int k)"
    unfolding toDouble_def Let_def if_not_P[OF nz] abs e m ..
  also have "\<dots> = sgn (of_int n) * of_int a" by (simp add: p)
  also have "\<dots> = of_int n" by (simp add: a_def sgn_if)
  finally show ?thesis .
qed

text \<open>The decimal of \<open>toFixed(1)\<close> is within a twentieth of the number.\<close>

lemma toFixed1_close: "\<bar>toFixed1 x - x\<bar> \<le> 1 / 20"
proof -
  have *: "\<bar>of_int \<lfloor>10 * y + 1 / 2\<rfloor> / 10 - y\<bar> \<le> 1 / 20" for y :: rat
  proof -
    define f where "f = \<lfloor>10 * y + 1 / 2\<rfloor>"
    have "of_int f \<le> 10 * y + 1 / 2" "10 * y + 1 / 2 < of_int f + 1"
      unfolding f_def by linarith+
    then have "\<bar>of_int f / 10 - y\<bar> \<le> 1 / 20" by linarith
    then show ?thesis by (simp only: f_def)
  qed
  show ?thesis
  proof (cases "0 \<le> x")
    case True
    then show ?thesis using *[of x] by (cases "x = 0") (simp_all add: toFixed1_def sgn_if)
  next
    case False
    then have "toFixed1 x - x = - (of_int \<lfloor>10 * (- x) + 1 / 2\<rfloor> / 10 - (- x))"
      by (simp add: toFixed1_def sgn_if)
    then show ?thesis using *[of "- x"] by (simp only: abs_minus_cancel)
  qed
qed

text \<open>Some values: a tenth is not a binary64; 2.55 and 1.45 lie below the decimal and are
  written as 2.5 and 1.4, while 2.45 lies above it and 1.25 is a tie, written as 2.5
  and 1.3.\<close>

lemma toDouble_examples:
  "toDouble (1 / 10) = 3602879701896397 / 36028797018963968"
  "toDouble (1 / 4) = 1 / 4"
  "toDouble (43 / 10) = 4841369599423283 / 1125899906842624"
  "toDouble (2 ^ 53 + 1) = 2 ^ 53"
  "toDouble (2 ^ 53 + 3) = 2 ^ 53 + 4"
  by code_simp+

lemma toFixed1_examples:
  "toFixed1 (toDouble (255 / 100)) = 25 / 10"
  "toFixed1 (toDouble (245 / 100)) = 25 / 10"
  "toFixed1 (toDouble (145 / 100)) = 14 / 10"
  "toFixed1 (toDouble (125 / 100)) = 13 / 10"
  "toFixed1 (toDouble (- 234 / 100)) = - 23 / 10"
  "toFixed1 (toDouble (13 / 3)) = 43 / 10"
  by code_simp+

section \<open>Feedback statistics\<close>

lemma statsStep_empty: "history fb = [] \<Longrightarrow> statsStep acc fb = acc"
  by (simp add: statsStep_def)

lemma ratingCount_step:
  "ratingCount (statsStep acc fb) = ratingCount acc + (if history fb = [] then 0 else 1)"
  by (simp add: statsStep_def split: list.splits)

lemma ratingCount_foldl:
  "ratingCount (foldl statsStep acc fs) = ratingCount acc + length (ratingsOf fs)"
  by (induction fs arbitrary: acc) (simp_all add: ratingCount_step)

lemma distribution_step:
  "distribution (statsStep acc fb) r
     = distribution acc r
       + (if 1 \<le> r \<and> r \<le> 5 \<and> history fb \<noteq> [] \<and> rating (hd (history fb)) = Some r
          then 1 else 0)"
  by (cases "history fb") (auto simp: statsStep_def split: option.splits)

lemma distribution_foldl:
  "distribution (foldl statsStep acc fs) r
     = distribution acc r
       + (if 1 \<le> r \<and> r \<le> 5 then count_list (ratingsOf fs) (Some r) else 0)"
  by (induction fs arbitrary: acc) (simp_all add: distribution_step)

lemma totalRating_NaN:
  "totalRating acc = None \<Longrightarrow> totalRating (foldl statsStep acc fs) = None"
proof (induction fs arbitrary: acc)
  case Nil
  then show ?case by simp
next
  case (Cons fb fs)
  have "totalRating (statsStep acc fb) = None"
    using Cons.prems by (simp add: statsStep_def split: list.splits)
  then show ?case using Cons.IH by simp
qed

lemma totalRating_undefined:
  "None \<in> set (ratingsOf fs) \<Longrightarrow> totalRating (foldl statsStep acc fs) = None"
proof (induction fs arbitrary: acc)
  case Nil
  then show ?case by simp
next
  case (Cons fb fs)
  show ?case
  proof (cases "history fb \<noteq> [] \<and> rating (hd (history fb)) = None")
    case True
    then have "totalRating (statsStep acc fb) = None"
      by (cases "history fb") (simp_all add: statsStep_def split: option.splits)
    then show ?thesis using totalRating_NaN by simp
  next
    case False
    then have "None \<in> set (ratingsOf fs)" using Cons.prems by (auto split: if_splits)
    then show ?thesis using Cons.IH by simp
  qed
qed

lemma totalRating_sum:
  assumes "totalRating acc = Some t" and "ratingsOf fs = map Some rs"
  shows "totalRating (foldl statsStep acc fs)
           = Some (foldl (\<lambda>sum r. toDouble (sum + of_int r)) t rs)"
  using assms
proof (induction fs arbitrary: acc t rs)
  case Nil
  then show ?case by simp
next
  case (Cons fb fs)
  show ?case
  proof (cases "history fb")
    case Nil
    then have "statsStep acc fb = acc" "ratingsOf fs = map Some rs"
      using Cons.prems(2) by (simp_all add: statsStep_empty)
    then show ?thesis using Cons.IH[of acc t rs] Cons.prems by simp
  next
    case (Cons e es)
    then obtain r rs' where rs: "rs = r # rs'" "rating e = Some r" "ratingsOf fs = map Some rs'"
      using Cons.prems(2) by (cases rs) auto
    have step: "totalRating (statsStep acc fb) = Some (toDouble (t + of_int r))"
      using Cons Cons.prems(1) rs(2) by (simp add: statsStep_def)
    from Cons.IH[OF step rs(3)] show ?thesis by (simp add: rs(1))
  qed
qed

lemma sum_list_abs_nonneg: "0 \<le> sum_list (map abs (rs :: int list))"
  by (induction rs) simp_all

lemma totalRating_exact:
  assumes "totalRating acc = Some (of_int t)"
    and "ratingsOf fs = map Some rs"
    and "\<bar>t\<bar> + sum_list (map abs rs) < 2 ^ 53"
  shows "totalRating (foldl statsStep acc fs) = Some (of_int (t + sum_list rs))"
  using assms
proof (induction fs arbitrary: acc t rs)
  case Nil
  then show ?case by simp
next
  case (Cons fb fs)
  show ?case
  proof (cases "history fb")
    case Nil
    then have "statsStep acc fb = acc" "ratingsOf fs = map Some rs"
      using Cons.prems(2) by (simp_all add: statsStep_empty)
    then show ?thesis using Cons.IH[of acc t rs] Cons.prems by simp
  next
    case (Cons e es)
    then obtain r rs' where rs: "rs = r # rs'" "rating e = Some r" "ratingsOf fs = map Some rs'"
      using Cons.prems(2) by (cases rs) auto
    have small: "\<bar>t + r\<bar> < 2 ^ 53"
      using Cons.prems(3) rs(1) sum_list_abs_nonneg[of rs'] by simp
    have "totalRating (statsStep acc fb) = Some (toDouble (of_int t + of_int r))"
      using Cons Cons.prems(1) rs(2) by (simp add: statsStep_def)
    also have "toDouble (of_int t + of_int r) = of_int (t + r)"
      using toDouble_of_int[OF small] by simp
    finally have step: "totalRating (statsStep acc fb) = Some (of_int (t + r))" .
    have "\<bar>t + r\<bar> + sum_list (map abs rs') < 2 ^ 53"
      using Cons.prems(3) rs(1) by simp
    from Cons.IH[OF step rs(3) this] show ?thesis by (simp add: rs(1) add.assoc)
  qed
qed


lemma sum_bump:
  fixes f :: "int \<Rightarrow> nat"
  assumes "finite S" "r \<in> S"
  shows "sum (f(r := f r + 1)) S = sum f S + 1"
proof -
  have "sum (f(r := f r + 1)) S = (f(r := f r + 1)) r + sum (f(r := f r + 1)) (S - {r})"
    using assms by (rule sum.remove)
  also have "sum (f(r := f r + 1)) (S - {r}) = sum f (S - {r})"
    by (rule sum.cong) simp_all
  also have "(f(r := f r + 1)) r + sum f (S - {r}) = (f r + sum f (S - {r})) + 1" by simp
  also have "f r + sum f (S - {r}) = sum f S" using assms by (simp add: sum.remove)
  finally show ?thesis .
qed

lemma buckets_step:
  "sum (distribution (statsStep acc fb)) {1..5}
     \<le> sum (distribution acc) {1..5} + (if history fb = [] then 0 else 1)"
proof (cases "history fb")
  case Nil
  then show ?thesis by (simp add: statsStep_def)
next
  case (Cons first rest)
  show ?thesis
  proof (cases "rating first")
    case None
    with Cons show ?thesis by (simp add: statsStep_def)
  next
    case (Some r)
    show ?thesis
    proof (cases "1 \<le> r \<and> r \<le> 5")
      case True
      then have "r \<in> {1..5}" by simp
      then have "sum ((distribution acc)(r := distribution acc r + 1)) {1..5}
                   = sum (distribution acc) {1..5} + 1"
        by (intro sum_bump) simp_all
      moreover have "distribution (statsStep acc fb) = (distribution acc)(r := distribution acc r + 1)"
        using Cons Some True by (simp add: statsStep_def)
      ultimately show ?thesis using Cons by simp
    next
      case False
      then have "distribution (statsStep acc fb) = distribution acc"
        using Cons Some by (auto simp: statsStep_def)
      then show ?thesis by simp
    qed
  qed
qed

lemma buckets_foldl:
  "sum (distribution (foldl statsStep acc fs)) {1..5}
     \<le> sum (distribution acc) {1..5} + length (ratingsOf fs)"
proof (induction fs arbitrary: acc)
  case Nil
  then show ?case by simp
next
  case (Cons fb fs)
  have "sum (distribution (foldl statsStep (statsStep acc fb) fs)) {1..5}
          \<le> sum (distribution (statsStep acc fb)) {1..5} + length (ratingsOf fs)"
    by (rule Cons.IH)
  also have "\<dots> \<le> sum (distribution acc) {1..5} + (if history fb = [] then 0 else 1)
             + length (ratingsOf fs)"
    using buckets_step[of acc fb] by simp
  finally show ?case by auto
qed

lemma parseFloatToFixed1_zero: "parseFloatToFixed1 0 = 0"
  by (simp add: parseFloatToFixed1_def toFixed1_def toDouble_def)

text \<open>The result of getCoachFeedbackStats in terms of its ledgers and their first ratings.\<close>

lemma getCoachFeedbackStats_eq:
  "getCoachFeedbackStats c s
     = (let found = filter (\<lambda>fb. fb_to fb = c) (feedbacks s);
            acc = foldl statsStep emptyAcc found
        in if found = []
           then \<lparr>stats_averageRating = Some 0, totalReviews = 0, ratingDistribution = (\<lambda>_. 0)\<rparr>
           else \<lparr>stats_averageRating =
                    (if ratingsOf found = [] then Some 0
                     else map_option
                            (\<lambda>t. parseFloatToFixed1 (toDouble (t / of_nat (length (ratingsOf found)))))
                            (totalRating acc)),
                  totalReviews = length found,
                  ratingDistribution = distribution acc\<rparr>)"
proof -
  let ?found = "filter (\<lambda>fb. fb_to fb = c) (feedbacks s)"
  have cnt: "ratingCount (foldl statsStep emptyAcc ?found) = length (ratingsOf ?found)"
    using ratingCount_foldl[of emptyAcc ?found] by (simp add: emptyAcc_def)
  show ?thesis
    unfolding getCoachFeedbackStats_def Let_def emptyAcc_def[symmetric] cnt
    by (simp add: parseFloatToFixed1_zero option.map_comp comp_def)
qed

text \<open>
  C10. getCoachFeedbackStats counts in totalReviews every ledger addressed to the coach,
  also those with an empty history. The ratings that count are the first ratings of the
  ledgers with at least one entry: bucket \<open>r\<close> of the histogram, for \<open>r\<close> from 1 to 5, is
  the number of those ratings equal to \<open>r\<close>, and the average is 0 when there is none, NaN
  when one of them is undefined, and otherwise their sum divided by their number and
  rounded to one decimal; the sum is added up in binary64, which is exact for ratings
  whose magnitudes add up to less than \<open>2 ^ 53\<close>. The buckets therefore sum to at most
  the number of ledgers with an entry, and totalReviews exceeds that sum by at least the
  number of empty ledgers. After a successful bookWorkout with the coach, when no ledger
  addressed to the coach held an entry before, totalReviews is positive while the
  average is 0 and every bucket is 0.
\<close>

theorem stats_count_empty_ledgers:
  "(let stats = getCoachFeedbackStats c s;
        ledgers = filter (\<lambda>fb. fb_to fb = c) (feedbacks s);
        ratings = map (\<lambda>fb. rating (hd (history fb))) (filter (\<lambda>fb. history fb \<noteq> []) ledgers)
    in totalReviews stats = length ledgers
     \<and> (\<forall>r. ratingDistribution stats r
              = (if 1 \<le> r \<and> r \<le> 5 then count_list ratings (Some r) else 0))
     \<and> (ratings = [] \<longrightarrow> stats_averageRating stats = Some 0)
     \<and> (None \<in> set ratings \<longrightarrow> stats_averageRating stats = None)
     \<and> (\<forall>rs. rs \<noteq> [] \<and> ratings = map Some rs
           \<longrightarrow> stats_averageRating stats
                 = Some (parseFloatToFixed1
                           (toDouble (foldl (\<lambda>sum r. toDouble (sum + of_int r)) 0 rs
                                      / of_nat (length rs)))))
     \<and> (\<forall>rs. rs \<noteq> [] \<and> ratings = map Some rs \<and> sum_list (map abs rs) < 2 ^ 53
           \<longrightarrow> stats_averageRating stats
                 = Some (parseFloatToFixed1
                           (toDouble (of_int (sum_list rs) / of_nat (length rs)))))
     \<and> sum (ratingDistribution stats) {1..5} \<le> length ratings
     \<and> sum (ratingDistribution stats) {1..5} + length (filter (\<lambda>fb. history fb = []) ledgers)
          \<le> totalReviews stats
     \<and> (\<forall>env cl w sl d s0 b.
           bookWorkout env cl w c sl d s0 = (Inr b, s)
           \<and> (\<forall>fb\<in>set (feedbacks s0). fb_to fb = c \<longrightarrow> history fb = [])
           \<longrightarrow> 0 < totalReviews stats
             \<and> stats_averageRating stats = Some 0
             \<and> (\<forall>r. ratingDistribution stats r = 0)))"
proof -
  let ?stats = "getCoachFeedbackStats c s"
  let ?found = "filter (\<lambda>fb. fb_to fb = c) (feedbacks s)"
  let ?ratings = "ratingsOf ?found"
  let ?acc = "foldl statsStep emptyAcc ?found"
  note eq = getCoachFeedbackStats_eq[of c s, unfolded Let_def]
  have nil: "?found = [] \<Longrightarrow> ?ratings = []" by simp
  have c1: "totalReviews ?stats = length ?found"
    by (simp add: eq)
  have dist: "ratingDistribution ?stats = distribution ?acc"
    by (cases "?found = []") (simp_all add: eq emptyAcc_def)
  have c2: "\<forall>r. ratingDistribution ?stats r
              = (if 1 \<le> r \<and> r \<le> 5 then count_list ?ratings (Some r) else 0)"
    using distribution_foldl[of emptyAcc ?found] by (simp add: dist emptyAcc_def)
  have avg: "stats_averageRating ?stats
               = (if ?ratings = [] then Some 0
                  else map_option
                         (\<lambda>t. parseFloatToFixed1 (toDouble (t / of_nat (length ?ratings))))
                         (totalRating ?acc))"
    by (cases "?found = []") (simp_all add: eq)
  have c3: "?ratings = [] \<longrightarrow> stats_averageRating ?stats = Some 0"
    by (simp add: avg)
  have c4: "None \<in> set ?ratings \<longrightarrow> stats_averageRating ?stats = None"
  proof
    assume n: "None \<in> set ?ratings"
    have "?ratings \<noteq> []"
    proof
      assume "?ratings = []"
      then have "set ?ratings = {}" by (simp only: list.set)
      with n show False by (simp only: empty_iff)
    qed
    moreover have "totalRating ?acc = None" using n by (rule totalRating_undefined)
    ultimately show "stats_averageRating ?stats = None" by (simp add: avg)
  qed
  have c4': "\<forall>rs. rs \<noteq> [] \<and> ?ratings = map Some rs
           \<longrightarrow> stats_averageRating ?stats
                 = Some (parseFloatToFixed1
                           (toDouble (foldl (\<lambda>sum r. toDouble (sum + of_int r)) 0 rs
                                      / of_nat (length rs))))"
  proof (intro allI impI)
    fix rs :: "int list"
    assume a: "rs \<noteq> [] \<and> ?ratings = map Some rs"
    have z: "totalRating emptyAcc = Some 0" by (simp add: emptyAcc_def)
    have "totalRating ?acc = Some (foldl (\<lambda>sum r. toDouble (sum + of_int r)) 0 rs)"
      using a by (intro totalRating_sum[OF z]) simp
    moreover have "?ratings \<noteq> []" "length ?ratings = length rs" using a by simp_all
    ultimately show "stats_averageRating ?stats
                 = Some (parseFloatToFixed1
                           (toDouble (foldl (\<lambda>sum r. toDouble (sum + of_int r)) 0 rs
                                      / of_nat (length rs))))"
      by (simp add: avg)
  qed
  have c5: "\<forall>rs. rs \<noteq> [] \<and> ?ratings = map Some rs \<and> sum_list (map abs rs) < 2 ^ 53
           \<longrightarrow> stats_averageRating ?stats
                 = Some (parseFloatToFixed1
                           (toDouble (of_int (sum_list rs) / of_nat (length rs))))"
  proof (intro allI impI)
    fix rs :: "int list"
    assume a: "rs \<noteq> [] \<and> ?ratings = map Some rs \<and> sum_list (map abs rs) < 2 ^ 53"
    have z: "totalRating emptyAcc = Some (of_int 0)" by (simp add: emptyAcc_def)
    have "totalRating ?acc = Some (of_int (0 + sum_list rs))"
      using a by (intro totalRating_exact[OF z]) simp_all
    moreover have "?ratings \<noteq> []" "length ?ratings = length rs" using a by simp_all
    ultimately show "stats_averageRating ?stats
                 = Some (parseFloatToFixed1
                           (toDouble (of_int (sum_list rs) / of_nat (length rs))))"
      by (simp add: avg)
  qed
  have c6: "sum (ratingDistribution ?stats) {1..5} \<le> length ?ratings"
    using buckets_foldl[of emptyAcc ?found] by (simp add: dist emptyAcc_def)
  have "length ?found = length (filter (\<lambda>fb. history fb \<noteq> []) ?found)
                        + length (filter (\<lambda>fb. \<not> history fb \<noteq> []) ?found)"
    by (rule sum_length_filter_compl[symmetric])
  then have c7: "sum (ratingDistribution ?stats) {1..5}
                   + length (filter (\<lambda>fb. history fb = []) ?found) \<le> totalReviews ?stats"
    using c6 by (simp add: c1)
  have c8: "\<forall>env cl w sl d s0 b.
           bookWorkout env cl w c sl d s0 = (Inr b, s)
           \<and> (\<forall>fb\<in>set (feedbacks s0). fb_to fb = c \<longrightarrow> history fb = [])
           \<longrightarrow> 0 < totalReviews ?stats
             \<and> stats_averageRating ?stats = Some 0
             \<and> (\<forall>r. ratingDistribution ?stats r = 0)"
  proof (intro allI impI)
    fix env cl w sl d s0 b
    assume a: "bookWorkout env cl w c sl d s0 = (Inr b, s)
         \<and> (\<forall>fb\<in>set (feedbacks s0). fb_to fb = c \<longrightarrow> history fb = [])"
    then obtain D where "bookTransaction env cl w c sl D s0 = (Inr b, s)"
      using bookWorkout_Inr by blast
    from bookTransaction_Inr[OF this]
    have fs: "feedbacks s = feedbacks s0 @
                [\<lparr>feedback_id = nextId s0, fb_from = cl, fb_to = c, history = []\<rparr>,
                 \<lparr>feedback_id = nextId s0 + 1, fb_from = c, fb_to = cl, history = []\<rparr>]"
      by simp
    have r0: "?ratings = []" using a by (auto simp: fs filter_empty_conv)
    have pos: "0 < length ?found" by (simp add: fs)
    have avg0: "stats_averageRating ?stats = Some 0" using c3 r0 by (rule mp)
    have dist0: "\<forall>r. ratingDistribution ?stats r = 0" using c2 unfolding r0 by simp
    show "0 < totalReviews ?stats
          \<and> stats_averageRating ?stats = Some 0
          \<and> (\<forall>r. ratingDistribution ?stats r = 0)"
      using pos avg0 dist0 by (simp only: c1 simp_thms)
  qed
  show ?thesis
    unfolding Let_def by (intro conjI) (rule c1 c2 c3 c4 c4' c5 c6 c7 c8)+
qed

text \<open>On the examples: coach 20 with the ratings 5, 4 and 4 and one empty ledger has four
  reviews, three of them in the histogram, and the average 13/3 is returned as 4.3, that
  is the binary64 nearest to it; after the first booking, coach 20 has one review, the
  average 0 and empty buckets.\<close>

theorem stats_count_empty_ledgers_witness:
  "totalReviews (getCoachFeedbackStats 20 ratedStore) = 4
   \<and> map (ratingDistribution (getCoachFeedbackStats 20 ratedStore)) [0, 1, 2, 3, 4, 5, 6]
       = [0, 0, 0, 0, 2, 1, 0]
   \<and> stats_averageRating (getCoachFeedbackStats 20 ratedStore)
       = Some (4841369599423283 / 1125899906842624)
   \<and> totalReviews (getCoachFeedbackStats 20 bookedStore) = 1
   \<and> stats_averageRating (getCoachFeedbackStats 20 bookedStore) = Some 0
   \<and> map (ratingDistribution (getCoachFeedbackStats 20 bookedStore)) [0, 1, 2, 3, 4, 5, 6]
       = [0, 0, 0, 0, 0, 0, 0]"
proof -
  note t = stats_count_empty_ledgers [of 20 ratedStore, unfolded Let_def]
  note u = stats_count_empty_ledgers [of 20 bookedStore, unfolded Let_def]
  have ledgers: "length (filter (\<lambda>fb. fb_to fb = 20) (feedbacks ratedStore)) = 4"
    by (simp add: ratedStore_def)
  have ratings: "map (\<lambda>fb. rating (hd (history fb)))
                   (filter (\<lambda>fb. history fb \<noteq> [])
                      (filter (\<lambda>fb. fb_to fb = 20) (feedbacks ratedStore)))
                 = map Some [5, 4, 4]"
    by (simp add: ratedStore_def)
  have round: "parseFloatToFixed1 (toDouble (of_int (sum_list [5, 4, 4]) / of_nat (length [5, 4, 4 :: int])))
                 = 4841369599423283 / 1125899906842624"
    by code_simp
  have e: "\<forall>fb\<in>set (feedbacks exampleStore). fb_to fb = 20 \<longrightarrow> history fb = []"
    by (simp add: exampleStore_def)
  have one: "length (filter (\<lambda>fb. fb_to fb = 20) (feedbacks bookedStore)) = 1"
    by (simp add: bookedStore_def)
  from t ledgers have r1: "totalReviews (getCoachFeedbackStats 20 ratedStore) = 4" by simp
  note t2 = t [THEN conjunct2, THEN conjunct1, unfolded ratings]
  then have r2: "map (ratingDistribution (getCoachFeedbackStats 20 ratedStore)) [0, 1, 2, 3, 4, 5, 6]
       = [0, 0, 0, 0, 2, 1, 0]"
    by simp
  note t6 = t [THEN conjunct2, THEN conjunct2, THEN conjunct2, THEN conjunct2, THEN conjunct2,
               THEN conjunct1, unfolded ratings, rule_format, of "[5, 4, 4]"]
  then have r3: "stats_averageRating (getCoachFeedbackStats 20 ratedStore)
                   = Some (4841369599423283 / 1125899906842624)"
    unfolding round by simp
  from u book_example e
  have b: "0 < totalReviews (getCoachFeedbackStats 20 bookedStore)
          \<and> stats_averageRating (getCoachFeedbackStats 20 bookedStore) = Some 0
          \<and> (\<forall>r. ratingDistribution (getCoachFeedbackStats 20 bookedStore) r = 0)"
    by blast
  from u one have b1: "totalReviews (getCoachFeedbackStats 20 bookedStore) = 1" by simp
  show ?thesis using r1 r2 r3 b b1 by simp
qed

section \<open>Feedback and completion\<close>

lemma findFeedback_id: "findFeedback i s = Some f \<Longrightarrow> feedback_id f = i"
  by (auto simp: findFeedback_def find_Some_iff)

lemma findFeedback_updateFeedback:
  "findFeedback (feedback_id f) (updateFeedback f s)
     = map_option (\<lambda>_. f) (findFeedback (feedback_id f) s)"
  by (simp add: findFeedback_def updateFeedback_def find_map_replace)

lemma saveFeedbackDoc_Inr:
  "saveFeedbackDoc env entry write s = (Inr u, s1) \<Longrightarrow> s1 = write s"
  by (auto simp: saveFeedbackDoc_def split: if_splits option.splits)

lemma writeLedger_Inr:
  assumes "fst (writeLedger env ref sender recipient missing entry s) = Inr ref'"
  shows "case ref of
           None \<Rightarrow> ref' = Some (nextId s)
                   \<and> snd (writeLedger env ref sender recipient missing entry s)
                     = s\<lparr>feedbacks := feedbacks s @
                           [\<lparr>feedback_id = nextId s, fb_from = sender, fb_to = recipient,
                             history = [entry]\<rparr>],
                         nextId := nextId s + 1\<rparr>
         | Some i \<Rightarrow> ref' = Some i
                   \<and> (\<exists>f. findFeedback i s = Some f
                        \<and> snd (writeLedger env ref sender recipient missing entry s)
                          = updateFeedback (f\<lparr>history := history f @ [entry]\<rparr>) s)"
proof (cases ref)
  case None
  with assms show ?thesis
    by (auto simp: writeLedger_def saveFeedbackDoc_def Let_def split: if_splits option.splits sum.splits)
next
  case (Some i)
  with assms show ?thesis
    by (auto simp: writeLedger_def saveFeedbackDoc_def Let_def split: if_splits option.splits sum.splits)
qed

lemma feedbackTransaction_Inr:
  assumes "feedbackTransaction env b isClient entry s = (Inr v, s')"
  shows "v = entry \<and>
         (\<exists>ref'. fst (writeLedger env (if isClient then clientFeedback b else coachFeedback b)
                         (if isClient then clientId b else coachId b)
                         (if isClient then coachId b else clientId b)
                         (if isClient then ''Client feedback document not found''
                          else ''Coach feedback document not found'') entry s) = Inr ref'
           \<and> s' = updateBooking
                     ((if isClient then b\<lparr>clientFeedback := ref'\<rparr> else b\<lparr>coachFeedback := ref'\<rparr>)
                        \<lparr>state := COMPLETED\<rparr>)
                     (snd (writeLedger env (if isClient then clientFeedback b else coachFeedback b)
                         (if isClient then clientId b else coachId b)
                         (if isClient then coachId b else clientId b)
                         (if isClient then ''Client feedback document not found''
                          else ''Coach feedback document not found'') entry s)))"
proof (cases isClient)
  case True
  with assms show ?thesis
    by (auto simp: feedbackTransaction_def Let_def split: sum.splits option.splits)
next
  case False
  with assms show ?thesis
    by (auto simp: feedbackTransaction_def Let_def split: sum.splits option.splits)
qed

lemma addFeedback_Inr:
  assumes ok: "addFeedback env userId bookingId msg r s = (Inr entry, s')"
    and found: "findBooking bookingId s = Some b"
    and slot: "findTimeSlot (timeSlotId b) s = Some slot"
    and hm: "hoursMinutes (endTime slot) = Some (h, m)"
  shows "setHours (date b) h m 0 0 \<le> now env \<and> state b \<noteq> COMPLETED
         \<and> feedbackTransaction env b (userId = clientId b)
              \<lparr>entry_message = msg, rating = Some r, timestamp = now env\<rparr> s = (Inr entry, s')"
proof -
  let ?e = "\<lparr>entry_message = msg, rating = Some r, timestamp = now env\<rparr>"
  let ?r = "withTransaction (feedbackTransaction env b (userId = clientId b) ?e) s"
  have pre: "\<not> (userId \<noteq> clientId b \<and> userId \<noteq> coachId b)" "state b \<noteq> COMPLETED"
            "\<not> setHours (date b) h m 0 0 > now env"
    using ok found slot hm by (auto simp: addFeedback_def Let_def split: if_splits)
  have "fst ?r = Inr entry \<and> snd ?r = s'"
    using found slot hm pre ok
    by (cases "userId = clientId b") (auto simp: addFeedback_def Let_def split: sum.splits)
  then have "fst ?r = Inr entry" "snd ?r = s'" by simp_all
  with withTransaction_Inr[of "feedbackTransaction env b (userId = clientId b) ?e" s entry]
  have "feedbackTransaction env b (userId = clientId b) ?e s = (Inr entry, s')" by simp
  with pre show ?thesis by simp
qed

lemma bookings_writeLedger:
  "bookings (snd (writeLedger env ref sender recipient missing entry s)) = bookings s"
  by (auto simp: writeLedger_def saveFeedbackDoc_def updateFeedback_def Let_def
           split: option.splits sum.splits)

lemma feedbacks_updateBooking: "feedbacks (updateBooking b s) = feedbacks s"
  by (simp add: updateBooking_def)

lemma findFeedback_cong: "feedbacks s = feedbacks t \<Longrightarrow> findFeedback i s = findFeedback i t"
  by (simp add: findFeedback_def)

lemma findBooking_cong: "bookings s = bookings t \<Longrightarrow> findBooking i s = findBooking i t"
  by (simp add: findBooking_def)

text \<open>
  C2. For a booking whose time slot has an HH:MM end time and an actor who is its client
  or its coach: while the end time, put on the booking date, lies after now, addFeedback
  fails with a 400 and leaves the store as it was. Every successful addFeedback happens
  at or after that time, returns the new entry, appends it to the ledger of the actor's
  direction (the ledger the booking refers to, or a new one from the actor to the other
  party when the booking refers to none) and leaves the booking in state \<open>completed\<close>,
  whatever its state (other than completed) was and whoever of the two submitted. And it
  does succeed when the time has come, the booking is not completed, the entry passes
  the schema, the referenced ledger exists and no save fails.
\<close>

theorem addFeedback_policy:
  assumes found: "findBooking bookingId s = Some b"
    and actor: "userId = clientId b \<or> userId = coachId b"
    and slot: "findTimeSlot (timeSlotId b) s = Some slot"
    and hm: "hoursMinutes (endTime slot) = Some (h, m)"
  shows
    "(now env < setHours (date b) h m 0 0
        \<longrightarrow> (\<exists>m'. addFeedback env userId bookingId msg r s = (Inl (HttpError 400 m'), s)))
     \<and> (\<forall>entry s'. addFeedback env userId bookingId msg r s = (Inr entry, s')
        \<longrightarrow> setHours (date b) h m 0 0 \<le> now env
          \<and> entry = \<lparr>entry_message = msg, rating = Some r, timestamp = now env\<rparr>
          \<and> (\<exists>b'. findBooking bookingId s' = Some b' \<and> state b' = COMPLETED)
          \<and> (case (if userId = clientId b then clientFeedback b else coachFeedback b) of
                Some i \<Rightarrow>
                  (\<exists>f. findFeedback i s = Some f
                     \<and> findFeedback i s' = Some (f\<lparr>history := history f @ [entry]\<rparr>))
                  \<and> length (feedbacks s') = length (feedbacks s)
              | None \<Rightarrow>
                  feedbacks s' = feedbacks s @
                    [\<lparr>feedback_id = nextId s, fb_from = userId,
                      fb_to = (if userId = clientId b then coachId b else clientId b),
                      history = [entry]\<rparr>]))
     \<and> (setHours (date b) h m 0 0 \<le> now env \<and> state b \<noteq> COMPLETED
          \<and> validEntry \<lparr>entry_message = msg, rating = Some r, timestamp = now env\<rparr>
          \<and> saveFault env 0 = None \<and> saveFault env 1 = None
          \<and> (case (if userId = clientId b then clientFeedback b else coachFeedback b) of
                Some i \<Rightarrow> findFeedback i s \<noteq> None
              | None \<Rightarrow> True)
        \<longrightarrow> (\<exists>s'. addFeedback env userId bookingId msg r s
                   = (Inr \<lparr>entry_message = msg, rating = Some r, timestamp = now env\<rparr>, s')))"
proof (intro conjI allI impI)
  assume "now env < setHours (date b) h m 0 0"
  then show "\<exists>m'. addFeedback env userId bookingId msg r s = (Inl (HttpError 400 m'), s)"
    using found slot hm actor
    by (cases "userId = clientId b"; cases "state b = COMPLETED")
       (simp_all add: addFeedback_def)
next
  fix entry s'
  let ?e = "\<lparr>entry_message = msg, rating = Some r, timestamp = now env\<rparr>"
  let ?isClient = "userId = clientId b"
  let ?ref = "if ?isClient then clientFeedback b else coachFeedback b"
  let ?w = "writeLedger env ?ref
              (if ?isClient then clientId b else coachId b)
              (if ?isClient then coachId b else clientId b)
              (if ?isClient then ''Client feedback document not found''
               else ''Coach feedback document not found'') ?e s"
  assume ok: "addFeedback env userId bookingId msg r s = (Inr entry, s')"
  from addFeedback_Inr[OF ok found slot hm]
  have time: "setHours (date b) h m 0 0 \<le> now env"
    and tr: "feedbackTransaction env b ?isClient ?e s = (Inr entry, s')" by simp_all
  from feedbackTransaction_Inr[OF tr] obtain ref' where
    entry: "entry = ?e" and w: "fst ?w = Inr ref'"
    and s': "s' = updateBooking
                   ((if ?isClient then b\<lparr>clientFeedback := ref'\<rparr> else b\<lparr>coachFeedback := ref'\<rparr>)
                      \<lparr>state := COMPLETED\<rparr>) (snd ?w)"
    by blast
  let ?done = "(if ?isClient then b\<lparr>clientFeedback := ref'\<rparr> else b\<lparr>coachFeedback := ref'\<rparr>)
                 \<lparr>state := COMPLETED\<rparr>"
  have id: "booking_id ?done = bookingId" using findBooking_id[OF found] by simp
  have "findBooking bookingId (snd ?w) = Some b"
    using found findBooking_cong[OF bookings_writeLedger] by simp
  then have fb: "findBooking bookingId s' = Some ?done"
    using findBooking_updateBooking[of ?done "snd ?w"] id by (simp add: s')
  have fs: "feedbacks s' = feedbacks (snd ?w)" by (simp add: s' feedbacks_updateBooking)
  show "setHours (date b) h m 0 0 \<le> now env" by (rule time)
  show "entry = ?e" by (rule entry)
  show "\<exists>b'. findBooking bookingId s' = Some b' \<and> state b' = COMPLETED"
    using fb by auto
  show "case ?ref of
          Some i \<Rightarrow>
            (\<exists>f. findFeedback i s = Some f
               \<and> findFeedback i s' = Some (f\<lparr>history := history f @ [entry]\<rparr>))
            \<and> length (feedbacks s') = length (feedbacks s)
        | None \<Rightarrow>
            feedbacks s' = feedbacks s @
              [\<lparr>feedback_id = nextId s, fb_from = userId,
                fb_to = (if userId = clientId b then coachId b else clientId b),
                history = [entry]\<rparr>]"
  proof (cases ?ref)
    case None
    with writeLedger_Inr[OF w] have "feedbacks (snd ?w) = feedbacks s @
          [\<lparr>feedback_id = nextId s, fb_from = (if ?isClient then clientId b else coachId b),
            fb_to = (if ?isClient then coachId b else clientId b), history = [?e]\<rparr>]"
      by simp
    moreover have "(if ?isClient then clientId b else coachId b) = userId" using actor by auto
    ultimately show ?thesis using None fs entry by simp
  next
    case (Some i)
    with writeLedger_Inr[OF w] obtain f where
      f: "findFeedback i s = Some f"
      and sw: "snd ?w = updateFeedback (f\<lparr>history := history f @ [?e]\<rparr>) s"
      by auto
    have fid: "feedback_id f = i" using f by (rule findFeedback_id)
    have "findFeedback i (snd ?w) = Some (f\<lparr>history := history f @ [?e]\<rparr>)"
      using findFeedback_updateFeedback[of "f\<lparr>history := history f @ [?e]\<rparr>" s] f fid
      by (simp add: sw)
    then have "findFeedback i s' = Some (f\<lparr>history := history f @ [entry]\<rparr>)"
      using findFeedback_cong[OF fs] entry by simp
    moreover have "length (feedbacks s') = length (feedbacks s)"
      by (simp add: fs sw updateFeedback_def)
    ultimately show ?thesis using Some f by simp
  qed
next
  let ?e = "\<lparr>entry_message = msg, rating = Some r, timestamp = now env\<rparr>"
  assume a: "setHours (date b) h m 0 0 \<le> now env \<and> state b \<noteq> COMPLETED
          \<and> validEntry ?e
          \<and> saveFault env 0 = None \<and> saveFault env 1 = None
          \<and> (case (if userId = clientId b then clientFeedback b else coachFeedback b) of
                Some i \<Rightarrow> findFeedback i s \<noteq> None
              | None \<Rightarrow> True)"
  show "\<exists>s'. addFeedback env userId bookingId msg r s = (Inr ?e, s')"
  proof (cases "userId = clientId b")
    case True
    then show ?thesis
      using found slot hm a
      by (cases "clientFeedback b")
         (auto simp: addFeedback_def Let_def withTransaction_def feedbackTransaction_def
                     writeLedger_def saveFeedbackDoc_def)
  next
    case False
    then show ?thesis
      using found slot hm a actor
      by (cases "coachFeedback b")
         (auto simp: addFeedback_def Let_def withTransaction_def feedbackTransaction_def
                     writeLedger_def saveFeedbackDoc_def)
  qed
qed

lemma slot_of_exampleBooking:
  "findTimeSlot (timeSlotId exampleBooking) bookedStore
     = Some \<lparr>slot_id = 5, startTime = ''09:00'', endTime = ''10:00''\<rparr>"
  by (simp add: findTimeSlot_def bookedStore_def exampleStore_def exampleBooking_def)

lemma end_of_slot5:
  "hoursMinutes (endTime \<lparr>slot_id = 5, startTime = ''09:00'', endTime = ''10:00''\<rparr>) = Some (10, 0)"
  by (simp add: hm_1000)

text \<open>On the example: coach 20 gives feedback on booking 102 two days early, and at
  the end of the slot.\<close>

theorem addFeedback_policy_witness:
  "(\<exists>m'. addFeedback (exampleEnv 0) 20 102 ''good'' 5 bookedStore
            = (Inl (HttpError 400 m'), bookedStore))
   \<and> (\<exists>s'. addFeedback (exampleEnv 208800000) 20 102 ''good'' 5 bookedStore
              = (Inr \<lparr>entry_message = ''good'', rating = Some 5, timestamp = 208800000\<rparr>, s')
            \<and> (\<exists>b'. findBooking 102 s' = Some b' \<and> state b' = COMPLETED)
            \<and> findFeedback 101 s'
                = Some \<lparr>feedback_id = 101, fb_from = 20, fb_to = 10,
                        history = [\<lparr>entry_message = ''good'', rating = Some 5,
                                    timestamp = 208800000\<rparr>]\<rparr>)"
proof
  have actor: "20 = clientId exampleBooking \<or> 20 = coachId exampleBooking"
    by (simp add: exampleBooking_def)
  note early = addFeedback_policy [OF findBooking_bookedStore actor slot_of_exampleBooking
                 end_of_slot5, of "exampleEnv 0" "''good''" 5]
  show "\<exists>m'. addFeedback (exampleEnv 0) 20 102 ''good'' 5 bookedStore
            = (Inl (HttpError 400 m'), bookedStore)"
    using early by (simp add: exampleEnv_def exampleBooking_def setHours_def startOfDay_def)
  note late = addFeedback_policy [OF findBooking_bookedStore actor slot_of_exampleBooking
                end_of_slot5, of "exampleEnv 208800000" "''good''" 5]
  have led: "findFeedback 101 bookedStore
               = Some \<lparr>feedback_id = 101, fb_from = 20, fb_to = 10, history = []\<rparr>"
    by (simp add: findFeedback_def bookedStore_def)
  have pre: "setHours (date exampleBooking) 10 0 0 0 \<le> now (exampleEnv 208800000)
             \<and> state exampleBooking \<noteq> COMPLETED
             \<and> validEntry \<lparr>entry_message = ''good'', rating = Some 5,
                            timestamp = now (exampleEnv 208800000)\<rparr>
             \<and> saveFault (exampleEnv 208800000) 0 = None
             \<and> saveFault (exampleEnv 208800000) 1 = None
             \<and> (case (if 20 = clientId exampleBooking then clientFeedback exampleBooking
                       else coachFeedback exampleBooking) of
                   Some i \<Rightarrow> findFeedback i bookedStore \<noteq> None
                 | None \<Rightarrow> True)"
    by (simp add: exampleEnv_def exampleBooking_def setHours_def startOfDay_def validEntry_def led)
  with late obtain s' where
    ok: "addFeedback (exampleEnv 208800000) 20 102 ''good'' 5 bookedStore
           = (Inr \<lparr>entry_message = ''good'', rating = Some 5,
                   timestamp = now (exampleEnv 208800000)\<rparr>, s')"
    by blast
  with late have eff:
    "(\<exists>b'. findBooking 102 s' = Some b' \<and> state b' = COMPLETED)
     \<and> (case (if 20 = clientId exampleBooking then clientFeedback exampleBooking
               else coachFeedback exampleBooking) of
           Some i \<Rightarrow>
             (\<exists>f. findFeedback i bookedStore = Some f
                \<and> findFeedback i s'
                    = Some (f\<lparr>history := history f @
                         [\<lparr>entry_message = ''good'', rating = Some 5,
                           timestamp = now (exampleEnv 208800000)\<rparr>]\<rparr>))
             \<and> length (feedbacks s') = length (feedbacks bookedStore)
         | None \<Rightarrow> True)"
    by (simp add: exampleBooking_def)
  show "\<exists>s'. addFeedback (exampleEnv 208800000) 20 102 ''good'' 5 bookedStore
              = (Inr \<lparr>entry_message = ''good'', rating = Some 5, timestamp = 208800000\<rparr>, s')
            \<and> (\<exists>b'. findBooking 102 s' = Some b' \<and> state b' = COMPLETED)
            \<and> findFeedback 101 s'
                = Some \<lparr>feedback_id = 101, fb_from = 20, fb_to = 10,
                        history = [\<lparr>entry_message = ''good'', rating = Some 5,
                                    timestamp = 208800000\<rparr>]\<rparr>"
    using ok eff led by (intro exI[of _ s']) (simp add: exampleBooking_def exampleEnv_def)
qed

section \<open>The latest feedback of a ledger\<close>

text \<open>
  C6 fails on a ledger with more than one entry: addFeedback appends, so the entry added
  last is the last of the history, while the page and the statistics read the first one.
  For the ledger with the ratings 1 (older) and 5 (newer), latestFeedback is the entry
  rated 1, the averages are 1 and the histogram counts a 1 and no 5.
\<close>

theorem latest_feedback_is_first_entry:
  "getFeedbackForUserCoach (exampleEnv 3000) 20 10 1 ''rating'' reviewStore
     = Inr \<lparr>feedback =
              [\<lparr>feedbackId = 100, from_id = 10, to_id = 20,
                latestFeedback = Some \<lparr>entry_message = ''bad'', rating = Some 1, timestamp = 1000\<rparr>,
                historyCount = 2,
                fullHistory = [\<lparr>entry_message = ''bad'', rating = Some 1, timestamp = 1000\<rparr>,
                               \<lparr>entry_message = ''great'', rating = Some 5, timestamp = 2000\<rparr>]\<rparr>],
            total = 1, currentPage = 1, perPage = 10, totalRatings = 1, averageRating = 1\<rparr>
   \<and> stats_averageRating (getCoachFeedbackStats 20 reviewStore) = Some 1
   \<and> ratingDistribution (getCoachFeedbackStats 20 reviewStore) 1 = 1
   \<and> ratingDistribution (getCoachFeedbackStats 20 reviewStore) 5 = 0
   \<and> map (\<lambda>fb. last (history fb)) (feedbacks reviewStore)
       = [\<lparr>entry_message = ''great'', rating = Some 5, timestamp = 2000\<rparr>]"
  by code_simp

section \<open>Booking, cancellation and availability\<close>

text \<open>
  C8 fails for the availability search: client 11 has booked coach 21 in slot 5, then
  client 10 books coach 20 in the same slot of the same day and cancels. The search for
  coach 20 still leaves slot 5 out of the free slots, because its booking query is not
  restricted to the coach, where getCoachAvailableTimeSlots reports the slot as free.
\<close>

theorem search_keeps_slot_excluded_after_cancel:
  "snd (bookWorkout (exampleEnv 0) 10 30 20 5 (DateObject (Some 172800000))
          (snd (bookWorkout (exampleEnv 0) 11 31 21 5 (DateObject (Some 172800000)) exampleStore)))
     = twoCoachStore
   \<and> fst (cancelBooking (exampleEnv 0) 105 10 twoCoachStore)
     = Inr \<lparr>booking_id = 105, timeSlotId = 5, coachId = 20, clientId = 10,
            workoutId = 30, date = 172800000, state = CANCELLED,
            clientFeedback = Some 103, coachFeedback = Some 104\<rparr>
   \<and> searchWorkoutUsingFilters (exampleEnv 0) None (Some 20) None
        (Some (DateObject (Some 172800000))) (snd (cancelBooking (exampleEnv 0) 105 10 twoCoachStore))
     = Inr [\<lparr>av_coachId = 20, av_workoutId = 30, activityId = 40,
             av_timeSlotId = Some 6, timeSlot = Some ''10:00-11:00'',
             av_date = 172800000, alternativeTimeSlots = []\<rparr>]
   \<and> getCoachAvailableTimeSlots (exampleEnv 0) 20 (Some 172800000)
        (snd (cancelBooking (exampleEnv 0) 105 10 twoCoachStore))
     = Inr [\<lparr>slot_id = 5, startTime = ''09:00'', endTime = ''10:00'', isBooked = False\<rparr>,
            \<lparr>slot_id = 6, startTime = ''10:00'', endTime = ''11:00'', isBooked = False\<rparr>]"
  by code_simp

lemma active_iff: "st \<in> set activeStates \<longleftrightarrow> st \<noteq> CANCELLED"
  by (cases st) (simp_all add: activeStates_def)

lemma coach_slots_Inr:
  assumes "coachData env c" "timeSlots s \<noteq> []"
  shows "getCoachAvailableTimeSlots env c (Some D) s
     = Inr (map (\<lambda>slot. \<lparr>slot_id = slot_id slot, startTime = startTime slot, endTime = endTime slot,
                          isBooked = (\<exists>b\<in>set (bookings s). coachId b = c \<and> date b = D
                                        \<and> timeSlotId b = slot_id slot \<and> state b \<noteq> CANCELLED)\<rparr>)
              (timeSlots s))"
  using assms
  by (auto simp: getCoachAvailableTimeSlots_def Let_def list_ex_iff active_iff)

lemma cancel_after_book:
  assumes first: "bookWorkout env cl w c sl d s = (Inr b, s1)"
    and fresh: "\<forall>x\<in>set (bookings s). booking_id x \<noteq> booking_id b"
    and cancel: "cancelBooking env2 (booking_id b) u s1 = (Inr b', s2)"
  shows "bookings s2 = bookings s @ [b\<lparr>state := CANCELLED\<rparr>] \<and> timeSlots s2 = timeSlots s"
proof -
  obtain D where tr: "bookTransaction env cl w c sl D s = (Inr b, s1)"
    using bookWorkout_Inr[OF first] by blast
  note facts = bookTransaction_Inr[OF tr]
  have bs1: "bookings s1 = bookings s @ [b]" using facts by simp
  have fb: "findBooking (booking_id b) s1 = Some b"
    using fresh by (simp add: findBooking_def bs1 find_append_fresh)
  from cancelBooking_Inr[OF cancel] fb
  have s2: "s2 = updateBooking (b\<lparr>state := CANCELLED\<rparr>) s1" by auto
  have "bookings s2 = bookings s @ [b\<lparr>state := CANCELLED\<rparr>]"
    using fresh by (simp add: s2 updateBooking_def bs1 cong: map_cong)
  moreover have "timeSlots s2 = timeSlots s" using facts by (simp add: s2 updateBooking_def)
  ultimately show ?thesis by simp
qed

text \<open>The per-coach availability does make the round trip, away from the last millisecond
  of a day.\<close>

lemma coach_slots_round_trip:
  assumes first: "bookWorkout env cl w c sl d s = (Inr b, s1)"
    and fresh: "\<forall>x\<in>set (bookings s). booking_id x \<noteq> booking_id b"
    and notLast: "date b < setHours (date b) 23 59 59 999"
    and cancel: "cancelBooking env2 (booking_id b) u s1 = (Inr b', s2)"
    and coach: "coachData env3 c"
  shows "\<exists>r1 r2. getCoachAvailableTimeSlots env3 c (Some (date b)) s1 = Inr r1
           \<and> getCoachAvailableTimeSlots env3 c (Some (date b)) s2 = Inr r2
           \<and> (\<exists>st\<in>set r1. slot_id st = sl)
           \<and> (\<forall>st\<in>set r1. slot_id st = sl \<longrightarrow> isBooked st)
           \<and> (\<exists>st\<in>set r2. slot_id st = sl)
           \<and> (\<forall>st\<in>set r2. slot_id st = sl \<longrightarrow> \<not> isBooked st)"
proof -
  obtain D wk slot where
      slot: "findTimeSlot sl s = Some slot"
    and noCoach: "filter (\<lambda>x. coachId x = c \<and> timeSlotId x = sl \<and> setHours D 0 0 0 0 \<le> date x
                        \<and> date x < setHours D 23 59 59 999 \<and> state x \<noteq> CANCELLED) (bookings s) = []"
    and tr: "bookTransaction env cl w c sl D s = (Inr b, s1)"
    using bookWorkout_Inr_checks[OF first] by blast
  note facts = bookTransaction_Inr[OF tr]
  have D: "date b = D" and bc: "coachId b = c" "timeSlotId b = sl" "state b = SCHEDULED"
    using facts by simp_all
  have bs1: "bookings s1 = bookings s @ [b]" and ts1: "timeSlots s1 = timeSlots s"
    using facts by simp_all
  have bs2: "bookings s2 = bookings s @ [b\<lparr>state := CANCELLED\<rparr>]" and ts2: "timeSlots s2 = timeSlots s"
    using cancel_after_book[OF first fresh cancel] by simp_all
  have mem: "slot \<in> set (timeSlots s)" "slot_id slot = sl"
    using slot by (auto simp: findTimeSlot_def find_Some_iff in_set_conv_nth)
  then have ne: "timeSlots s \<noteq> []" by auto
  have none: "\<not> (\<exists>x\<in>set (bookings s). coachId x = c \<and> date x = date b
                    \<and> timeSlotId x = sl \<and> state x \<noteq> CANCELLED)"
  proof
    assume "\<exists>x\<in>set (bookings s). coachId x = c \<and> date x = date b
                    \<and> timeSlotId x = sl \<and> state x \<noteq> CANCELLED"
    then obtain x where x: "x \<in> set (bookings s)" "coachId x = c" "date x = D"
        "timeSlotId x = sl" "state x \<noteq> CANCELLED" using D by auto
    have "setHours D 0 0 0 0 \<le> date x" using x by (simp add: setHours_def startOfDay_le)
    moreover have "date x < setHours D 23 59 59 999" using x notLast D by simp
    ultimately have "0 < length (filter (\<lambda>x. coachId x = c \<and> timeSlotId x = sl
                        \<and> setHours D 0 0 0 0 \<le> date x
                        \<and> date x < setHours D 23 59 59 999 \<and> state x \<noteq> CANCELLED) (bookings s))"
      using x by (intro filter_nonempty[of x]) simp_all
    with noCoach show False by simp
  qed
  show ?thesis
    using mem none bc
    by (simp add: coach_slots_Inr[OF coach] ts1 ts2 ne bs1 bs2) force
qed

end
